theory Spec2Isabelle
  imports
    Main
    "HOL-Library.List_Lexorder"
    "HOL-Library.Product_Lexorder"
begin

section \<open>Python values\<close>

text \<open>
  Byte strings (\<^verbatim>\<open>bytes\<close>) and the ASCII text of messages are \<^typ>\<open>string\<close>.
  Text obtained by decoding bytes is a list of Unicode code points, compared as Python
  compares \<^verbatim>\<open>str\<close>: lexicographically by code point.
\<close>

type_synonym bytes = string
type_synonym ustr = "nat list"

definition ascii :: "string \<Rightarrow> ustr" where
  "ascii s = map of_char s"

text \<open>
  Exceptions carry the text that \<^verbatim>\<open>str(e)\<close> yields. In Python 3 \<^verbatim>\<open>IOError\<close> is
  an alias of \<^verbatim>\<open>OSError\<close>. Where the Python runtime itself raises (an attribute of
  \<^verbatim>\<open>None\<close>, a division by zero, an unbound name), the text is the interpreter's, with
  the quotes around type and attribute names left out.
\<close>

datatype exn =
    OSError string
  | AttributeError string
  | ValueError string
  | TypeError string
  | NameError string
  | ZeroDivisionError string
  | OverflowError string

fun exn_str :: "exn \<Rightarrow> string" where
  "exn_str (OSError m) = m"
| "exn_str (AttributeError m) = m"
| "exn_str (ValueError m) = m"
| "exn_str (TypeError m) = m"
| "exn_str (NameError m) = m"
| "exn_str (ZeroDivisionError m) = m"
| "exn_str (OverflowError m) = m"

fun is_IOError :: "exn \<Rightarrow> bool" where
  "is_IOError (OSError m) = True"
| "is_IOError e = False"

text \<open>\<^verbatim>\<open>s.startswith(p)\<close> and \<^verbatim>\<open>p in s\<close> on sequences.\<close>

definition startswith :: "'a list \<Rightarrow> 'a list \<Rightarrow> bool" where
  "startswith s p = (take (length p) s = p)"

fun str_contains :: "'a list \<Rightarrow> 'a list \<Rightarrow> bool" where
  "str_contains [] p = (p = [])"
| "str_contains (x # xs) p = (startswith (x # xs) p \<or> str_contains xs p)"

text \<open>\<^verbatim>\<open>str(n)\<close> and \<^verbatim>\<open>oct(n)\<close> of an integer.\<close>

definition digit :: "nat \<Rightarrow> char" where
  "digit d = ''0123456789'' ! d"

function nat_digits :: "nat \<Rightarrow> nat \<Rightarrow> string" where
  "nat_digits b n =
     (if b < 2 \<or> n < b then [digit n] else nat_digits b (n div b) @ [digit (n mod b)])"
  by pat_completeness auto
termination
  by (relation "measure snd") auto

definition str_int :: "int \<Rightarrow> string" where
  "str_int i = (if i < 0 then ''-'' @ nat_digits 10 (nat (- i)) else nat_digits 10 (nat i))"

definition oct :: "int \<Rightarrow> string" where
  "oct i = (if i < 0 then ''-0o'' @ nat_digits 8 (nat (- i)) else ''0o'' @ nat_digits 8 (nat i))"

fun str_opt_int :: "int option \<Rightarrow> string" where
  "str_opt_int None = ''None''"
| "str_opt_int (Some i) = str_int i"

fun str_opt :: "string option \<Rightarrow> string" where
  "str_opt None = ''None''"
| "str_opt (Some s) = s"

subsection \<open>\<^verbatim>\<open>bytes.decode('utf-8', errors='replace')\<close>\<close>

text \<open>
  The decoder reads one lead byte and up to three continuation bytes. An ill-formed
  sequence is replaced by one U+FFFD that covers the lead byte and the continuation
  bytes accepted so far; decoding resumes at the offending byte. \<open>utf8_step b bs\<close>
  gives the code point for lead byte \<open>b\<close> followed by \<open>bs\<close>, and how many bytes of
  \<open>bs\<close> it consumed.
\<close>

definition is_cont :: "nat \<Rightarrow> bool" where
  "is_cont c = (0x80 \<le> c \<and> c \<le> 0xBF)"

definition second_ok3 :: "nat \<Rightarrow> nat \<Rightarrow> bool" where
  "second_ok3 b c = (is_cont c \<and> \<not> (if c < 0xA0 then b = 0xE0 else b = 0xED))"

definition second_ok4 :: "nat \<Rightarrow> nat \<Rightarrow> bool" where
  "second_ok4 b c = (is_cont c \<and> \<not> (if c < 0x90 then b = 0xF0 else b = 0xF4))"

definition utf8_step :: "nat \<Rightarrow> nat list \<Rightarrow> nat \<times> nat" where
  "utf8_step b bs =
     (if b < 0x80 then (b, 0)
      else if b < 0xC2 \<or> 0xF5 \<le> b then (0xFFFD, 0)
      else if b < 0xE0 then
        (case bs of
           [] \<Rightarrow> (0xFFFD, 0)
         | c # _ \<Rightarrow>
             if is_cont c then ((b - 0xC0) * 64 + (c - 0x80), 1) else (0xFFFD, 0))
      else if b < 0xF0 then
        (case bs of
           [] \<Rightarrow> (0xFFFD, 0)
         | c # r \<Rightarrow>
             if \<not> second_ok3 b c then (0xFFFD, 0)
             else (case r of
                     [] \<Rightarrow> (0xFFFD, 1)
                   | d # _ \<Rightarrow>
                       if is_cont d
                       then ((b - 0xE0) * 4096 + (c - 0x80) * 64 + (d - 0x80), 2)
                       else (0xFFFD, 1)))
      else
        (case bs of
           [] \<Rightarrow> (0xFFFD, 0)
         | c # r \<Rightarrow>
             if \<not> second_ok4 b c then (0xFFFD, 0)
             else (case r of
                     [] \<Rightarrow> (0xFFFD, 1)
                   | d # r' \<Rightarrow>
                       if \<not> is_cont d then (0xFFFD, 1)
                       else (case r' of
                               [] \<Rightarrow> (0xFFFD, 2)
                             | e # _ \<Rightarrow>
                                 if is_cont e
                                 then ((b - 0xF0) * 262144 + (c - 0x80) * 4096
                                        + (d - 0x80) * 64 + (e - 0x80), 3)
                                 else (0xFFFD, 2)))))"

fun utf8_decode :: "nat list \<Rightarrow> ustr" where
  "utf8_decode [] = []"
| "utf8_decode (b # bs) =
     (case utf8_step b bs of (cp, m) \<Rightarrow> cp # utf8_decode (drop m bs))"

definition decode :: "bytes \<Rightarrow> ustr" where
  "decode s = utf8_decode (map of_char s)"

section \<open>The forensic library (pytsk3) as seen by the handler\<close>

text \<open>
  The library is opaque: what it returns for the image at hand is a parameter of the
  model. Every call into it may raise. The Python runtime functions whose result
  depends on the platform (\<^verbatim>\<open>str.lower\<close> on arbitrary Unicode text, local-time
  formatting) are parameters as well.
\<close>

record img =
  get_size :: "exn + int"
  get_block_size :: "exn + int"

record part =
  p_addr :: int
  p_desc :: "bytes option"
  p_start :: int
  p_len :: int
  p_flags_str :: string

record volsys =
  vs_parts :: "part list"
  vs_iter_error :: "exn option"
  vs_block_size :: "exn + int"
  get_part_by_addr :: "int \<Rightarrow> exn + part option"

text \<open>
  The metadata of a file. \<open>m_type_name\<close> is what
  \<^verbatim>\<open>pytsk3.TSK_FS_META_TYPE_ENUM(meta.type).name\<close> evaluates to: the name of the type,
  such as \<^verbatim>\<open>TSK_FS_META_TYPE_DIR\<close>, or the exception of the lookup.
\<close>

record meta =
  m_addr :: int
  m_type_name :: "exn + string"
  m_mode :: int
  m_size :: int
  m_mtime :: int
  m_atime :: int
  m_ctime :: int
  m_crtime :: int

text \<open>One \<^verbatim>\<open>f.info\<close> of a directory iteration; \<^verbatim>\<open>f.info.meta\<close> may be \<^verbatim>\<open>None\<close>.\<close>

record file_info =
  name_name :: bytes
  name_flags :: int
  f_meta :: "meta option"

text \<open>
  An opened directory: the address of its own metadata
  (\<^verbatim>\<open>directory.info.fs_file.meta.addr\<close>, absent when the metadata is), the files the
  iteration yields, and the exception that ends the iteration, if one does.
\<close>

record directory =
  dir_addr :: "int option"
  dir_files :: "file_info list"
  dir_iter_error :: "exn option"

datatype dir_ref = ByInode int | ByPath "string option"

record fs =
  root_inum :: int
  ftype_name :: "exn + string"
  open_dir :: "dir_ref \<Rightarrow> exn + directory"

record env =
  Img_Info :: "string option \<Rightarrow> exn + img"
  Volume_Info :: "img option \<Rightarrow> exn + volsys"
  FS_Info :: "img option \<Rightarrow> int option \<Rightarrow> exn + fs"
  str_lower :: "ustr \<Rightarrow> ustr"
  strftime_local :: "int \<Rightarrow> exn + string"

definition TSK_FS_NAME_FLAG_UNALLOC :: int where
  "TSK_FS_NAME_FLAG_UNALLOC = 2"

section \<open>\<^verbatim>\<open>tools/disk_analysis.py\<close>: \<^verbatim>\<open>DiskImageHandler\<close>\<close>

text \<open>
  The handler's fields, and a log of the calls it has made into the library, in order.
  The log is not a field of the Python object: it records the effect on the library.
\<close>

datatype tsk_call =
    Call_Img_Info "string option"
  | Call_Volume_Info
  | Call_get_size
  | Call_get_block_size
  | Call_get_part_by_addr int
  | Call_FS_Info "int option"
  | Call_open_dir dir_ref

record handler =
  image_path :: "string option"
  img_info :: "img option"
  volume_info :: "volsys option"
  fs_info :: "fs option"
  partition_offset :: "int option"
  calls :: "tsk_call list"

definition called :: "tsk_call \<Rightarrow> handler \<Rightarrow> handler" where
  "called c h = h\<lparr>calls := calls h @ [c]\<rparr>"

text \<open>\<^verbatim>\<open>__init__\<close>: opens the image; an exception of \<^verbatim>\<open>Img_Info\<close> is logged and raised again.\<close>

definition DiskImageHandler_init :: "env \<Rightarrow> string option \<Rightarrow> exn + handler" where
  "DiskImageHandler_init ev path =
     (case Img_Info ev path of
        Inl e \<Rightarrow> Inl e
      | Inr i \<Rightarrow>
          Inr \<lparr>image_path = path, img_info = Some i, volume_info = None, fs_info = None,
               partition_offset = None, calls = [Call_Img_Info path]\<rparr>)"

record volume =
  v_slot :: int
  v_desc :: ustr
  v_start_sector :: int
  v_num_sectors :: int
  v_flags :: string

definition no_partition_table_desc :: ustr where
  "no_partition_table_desc = ascii ''Potential Filesystem (No Partition Table)''"

definition volume_of_part :: "part \<Rightarrow> volume" where
  "volume_of_part p =
     \<lparr>v_slot = p_addr p,
      v_desc = (case p_desc p of
                  None \<Rightarrow> ascii ''N/A''
                | Some d \<Rightarrow> if d = [] then ascii ''N/A'' else decode d),
      v_start_sector = p_start p,
      v_num_sectors = p_len p,
      v_flags = p_flags_str p\<rparr>"

text \<open>
  The \<^verbatim>\<open>except IOError\<close> branch of \<^verbatim>\<open>get_volume_info\<close>: it appends the synthetic volume to
  what the loop has collected. The size and block-size queries run inside the handler
  clause, so an exception of theirs (or of the division) leaves the method.
\<close>

definition synthetic_volume :: "handler \<Rightarrow> (exn + volume) \<times> handler" where
  "synthetic_volume h =
     (case img_info h of
        None \<Rightarrow> (Inl (AttributeError ''NoneType object has no attribute get_size''), h)
      | Some i \<Rightarrow>
          (case get_size i of
             Inl e \<Rightarrow> (Inl e, called Call_get_size h)
           | Inr sz \<Rightarrow>
               (let h1 = called Call_get_block_size (called Call_get_size h) in
                case get_block_size i of
                  Inl e \<Rightarrow> (Inl e, h1)
                | Inr bs \<Rightarrow>
                    if bs = 0
                    then (Inl (ZeroDivisionError ''integer division or modulo by zero''), h1)
                    else (Inr \<lparr>v_slot = 0, v_desc = no_partition_table_desc,
                               v_start_sector = 0, v_num_sectors = sz div bs,
                               v_flags = ''N/A''\<rparr>, h1))))"

text \<open>
  \<^verbatim>\<open>get_volume_info\<close>. The result is the returned list, or the exception that leaves the
  method. \<^verbatim>\<open>self.volume_info\<close> is assigned only when the constructor returns.
\<close>

definition get_volume_info :: "env \<Rightarrow> handler \<Rightarrow> (exn + volume list) \<times> handler" where
  "get_volume_info ev h =
     (let h0 = called Call_Volume_Info h in
      case Volume_Info ev (img_info h) of
        Inl e \<Rightarrow>
          if is_IOError e
          then (case synthetic_volume h0 of
                  (Inl e', h1) \<Rightarrow> (Inl e', h1)
                | (Inr v, h1) \<Rightarrow> (Inr [v], h1))
          else (Inr [], h0)
      | Inr vs \<Rightarrow>
          (let h1 = h0\<lparr>volume_info := Some vs\<rparr>;
               volumes = map volume_of_part (vs_parts vs)
           in case vs_iter_error vs of
                None \<Rightarrow> (Inr volumes, h1)
              | Some e \<Rightarrow>
                  if is_IOError e
                  then (case synthetic_volume h1 of
                          (Inl e', h2) \<Rightarrow> (Inl e', h2)
                        | (Inr v, h2) \<Rightarrow> (Inr (volumes @ [v]), h2))
                  else (Inr [], h1)))"

text \<open>
  The first half of the \<^verbatim>\<open>try\<close> block of \<^verbatim>\<open>open_filesystem\<close>: it computes
  \<^verbatim>\<open>self.partition_offset\<close>. \<open>Inr True\<close> means the block goes on to open the
  filesystem, \<open>Inr False\<close> is a \<^verbatim>\<open>return False\<close>, \<open>Inl e\<close> an exception on its way
  to the handler clauses. \<^verbatim>\<open>getattr(self.volume_info, 'block_size', 512)\<close> falls back to
  512 when the attribute is missing.
\<close>

definition locate_partition ::
  "handler \<Rightarrow> int option \<Rightarrow> int option \<Rightarrow> (exn + bool) \<times> handler" where
  "locate_partition h partition_index offset_sectors =
     (case partition_index of
        Some pidx \<Rightarrow>
          (case volume_info h of
             None \<Rightarrow> (Inr False, h)
           | Some vs \<Rightarrow>
               (let h1 = called (Call_get_part_by_addr pidx) h in
                case get_part_by_addr vs pidx of
                  Inl e \<Rightarrow> (Inl e, h1)
                | Inr None \<Rightarrow> (Inr False, h1)
                | Inr (Some p) \<Rightarrow>
                    (case vs_block_size vs of
                       Inl e \<Rightarrow> (Inl e, h1)
                     | Inr bsz \<Rightarrow>
                         (Inr True, h1\<lparr>partition_offset := Some (p_start p * bsz)\<rparr>))))
      | None \<Rightarrow>
          (case offset_sectors of
             None \<Rightarrow> (Inr True, h)
           | Some off \<Rightarrow>
               (let sector_size =
                  (case volume_info h of
                     None \<Rightarrow> Inr 512
                   | Some vs \<Rightarrow>
                       (case vs_block_size vs of
                          Inl (AttributeError m) \<Rightarrow> Inr 512
                        | r \<Rightarrow> r))
                in case sector_size of
                     Inl e \<Rightarrow> (Inl e, h)
                   | Inr ssz \<Rightarrow> (Inr True, h\<lparr>partition_offset := Some (off * ssz)\<rparr>))))"

text \<open>
  The whole \<^verbatim>\<open>try\<close> block: after the offset, \<^verbatim>\<open>FS_Info\<close> is constructed and assigned
  to \<^verbatim>\<open>self.fs_info\<close>, and the name of its type is looked up for the log line.
\<close>

definition open_filesystem_try ::
  "env \<Rightarrow> handler \<Rightarrow> int option \<Rightarrow> int option \<Rightarrow> (exn + bool) \<times> handler" where
  "open_filesystem_try ev h partition_index offset_sectors =
     (case locate_partition h partition_index offset_sectors of
        (Inl e, h1) \<Rightarrow> (Inl e, h1)
      | (Inr False, h1) \<Rightarrow> (Inr False, h1)
      | (Inr True, h1) \<Rightarrow>
          (let h2 = called (Call_FS_Info (partition_offset h1)) h1 in
           case FS_Info ev (img_info h1) (partition_offset h1) of
             Inl e \<Rightarrow> (Inl e, h2)
           | Inr f \<Rightarrow>
               (let h3 = h2\<lparr>fs_info := Some f\<rparr> in
                case ftype_name f of
                  Inl e \<Rightarrow> (Inl e, h3)
                | Inr _ \<Rightarrow> (Inr True, h3))))"

text \<open>
  \<^verbatim>\<open>open_filesystem\<close>: both fields are reset, the two argument checks return early,
  and either handler clause resets the fields again and returns \<^verbatim>\<open>False\<close>.
\<close>

definition open_filesystem ::
  "env \<Rightarrow> handler \<Rightarrow> int option \<Rightarrow> int option \<Rightarrow> bool \<times> handler" where
  "open_filesystem ev h partition_index offset_sectors =
     (let h0 = h\<lparr>fs_info := None, partition_offset := None\<rparr> in
      if partition_index \<noteq> None \<and> offset_sectors \<noteq> None then (False, h0)
      else if partition_index = None \<and> offset_sectors = None then (False, h0)
      else
        (case open_filesystem_try ev h0 partition_index offset_sectors of
           (Inr b, h1) \<Rightarrow> (b, h1)
         | (Inl e, h1) \<Rightarrow> (False, h1\<lparr>fs_info := None, partition_offset := None\<rparr>)))"

subsection \<open>\<^verbatim>\<open>list_directory\<close>\<close>

record entry =
  e_inode :: int
  e_name :: ustr
  e_type :: string
  e_mode :: string
  e_size :: int
  e_mtime :: string
  e_atime :: string
  e_ctime :: string
  e_crtime :: string
  e_is_deleted :: bool

text \<open>
  \<^verbatim>\<open>_format_timestamp\<close>: \<^verbatim>\<open>ValueError\<close> and \<^verbatim>\<open>OSError\<close> of the conversion give
  \<^verbatim>\<open>"Invalid Date"\<close>; any other exception leaves the method.
\<close>

definition format_timestamp :: "env \<Rightarrow> int \<Rightarrow> exn + string" where
  "format_timestamp ev ts =
     (if ts = 0 then Inr ''N/A''
      else (case strftime_local ev ts of
              Inr s \<Rightarrow> Inr s
            | Inl (ValueError m) \<Rightarrow> Inr ''Invalid Date''
            | Inl (OSError m) \<Rightarrow> Inr ''Invalid Date''
            | Inl e \<Rightarrow> Inl e))"

text \<open>The dictionary built for one file; reading a field of an absent \<^verbatim>\<open>meta\<close> raises.\<close>

definition make_entry :: "env \<Rightarrow> file_info \<Rightarrow> exn + entry" where
  "make_entry ev f =
     (case f_meta f of
        None \<Rightarrow> Inl (AttributeError ''NoneType object has no attribute type'')
      | Some m \<Rightarrow>
          (case m_type_name m of Inl e \<Rightarrow> Inl e | Inr ty \<Rightarrow>
          (case format_timestamp ev (m_mtime m) of Inl e \<Rightarrow> Inl e | Inr mt \<Rightarrow>
          (case format_timestamp ev (m_atime m) of Inl e \<Rightarrow> Inl e | Inr at \<Rightarrow>
          (case format_timestamp ev (m_ctime m) of Inl e \<Rightarrow> Inl e | Inr ct \<Rightarrow>
          (case format_timestamp ev (m_crtime m) of Inl e \<Rightarrow> Inl e | Inr crt \<Rightarrow>
             Inr \<lparr>e_inode = m_addr m,
                  e_name = decode (name_name f),
                  e_type = ty,
                  e_mode = (if m_mode m \<noteq> 0 then oct (m_mode m) else ''N/A''),
                  e_size = m_size m,
                  e_mtime = mt, e_atime = at, e_ctime = ct, e_crtime = crt,
                  e_is_deleted = (and (name_flags f) TSK_FS_NAME_FLAG_UNALLOC \<noteq> 0)\<rparr>))))))"

text \<open>
  One step of the loop over the directory: \<open>Inr None\<close> is a \<^verbatim>\<open>continue\<close>. The address
  of the directory is read only when the name is \<^verbatim>\<open>.\<close> or \<^verbatim>\<open>..\<close> (the \<^verbatim>\<open>and\<close> is
  short-circuit).
\<close>

definition visit :: "env \<Rightarrow> fs \<Rightarrow> directory \<Rightarrow> file_info \<Rightarrow> exn + entry option" where
  "visit ev f d x =
     (let dots = (if name_name x = ''.'' \<or> name_name x = ''..''
                  then (case dir_addr d of
                          None \<Rightarrow> Inl (AttributeError ''NoneType object has no attribute addr'')
                        | Some a \<Rightarrow> Inr (a \<noteq> root_inum f))
                  else Inr False)
      in case dots of
           Inl e \<Rightarrow> Inl e
         | Inr True \<Rightarrow> Inr None
         | Inr False \<Rightarrow>
             if startswith (name_name x) ''$'' then Inr None
             else (case make_entry ev x of Inl e \<Rightarrow> Inl e | Inr en \<Rightarrow> Inr (Some en)))"

fun collect_entries :: "env \<Rightarrow> fs \<Rightarrow> directory \<Rightarrow> file_info list \<Rightarrow> exn + entry list" where
  "collect_entries ev f d [] = Inr []"
| "collect_entries ev f d (x # xs) =
     (case visit ev f d x of
        Inl e \<Rightarrow> Inl e
      | Inr r \<Rightarrow>
          (case collect_entries ev f d xs of
             Inl e \<Rightarrow> Inl e
           | Inr es \<Rightarrow> Inr (case r of None \<Rightarrow> es | Some en \<Rightarrow> en # es)))"

text \<open>The key of \<^verbatim>\<open>entries.sort\<close>; Python's sort is stable, as \<^const>\<open>sort_key\<close> is.\<close>

definition entry_key :: "env \<Rightarrow> entry \<Rightarrow> bool \<times> ustr" where
  "entry_key ev x = (e_type x \<noteq> ''TSK_FS_META_TYPE_DIR'', str_lower ev (e_name x))"

text \<open>The directory a listing request opens: the inode when one is given, else the path.\<close>

definition dir_ref_of :: "string option \<Rightarrow> int option \<Rightarrow> dir_ref" where
  "dir_ref_of path inode = (case inode of Some i \<Rightarrow> ByInode i | None \<Rightarrow> ByPath path)"

definition list_directory ::
  "env \<Rightarrow> handler \<Rightarrow> string option \<Rightarrow> int option \<Rightarrow> entry list \<times> handler" where
  "list_directory ev h path inode =
     (case fs_info h of
        None \<Rightarrow> ([], h)
      | Some f \<Rightarrow>
          (let r = dir_ref_of path inode;
               h1 = called (Call_open_dir r) h
           in case open_dir f r of
                Inl e \<Rightarrow> ([], h1)
              | Inr d \<Rightarrow>
                  (case collect_entries ev f d (dir_files d) of
                     Inl e \<Rightarrow> ([], h1)
                   | Inr es \<Rightarrow>
                       (case dir_iter_error d of
                          Some e \<Rightarrow> ([], h1)
                        | None \<Rightarrow> (sort_key (entry_key ev) es, h1)))))"

definition close :: "handler \<Rightarrow> handler" where
  "close h =
     (if img_info h \<noteq> None
      then h\<lparr>img_info := None, volume_info := None, fs_info := None\<rparr>
      else h)"

text \<open>
  Whether a listing request is for the root of the open filesystem, by the test the loop
  applies: the address of the opened directory is the filesystem's root inode.
\<close>

definition lists_root :: "handler \<Rightarrow> string option \<Rightarrow> int option \<Rightarrow> bool" where
  "lists_root h path inode =
     (case fs_info h of
        None \<Rightarrow> False
      | Some f \<Rightarrow>
          (case open_dir f (dir_ref_of path inode) of
             Inl e \<Rightarrow> False
           | Inr d \<Rightarrow> dir_addr d = Some (root_inum f)))"

section \<open>\<^verbatim>\<open>gui/worker.py\<close>: \<^verbatim>\<open>BaseWorker\<close> and \<^verbatim>\<open>DiskAnalysisWorker\<close>\<close>

text \<open>
  The signals a disk worker emits, in order, are the observable behaviour of a task.
  \<^verbatim>\<open>finished\<close>, \<^verbatim>\<open>error\<close> and \<^verbatim>\<open>progress\<close> come from the base class; the other three are
  the payload signals of the disk worker.
\<close>

datatype signal =
    Finished
  | Error string
  | Progress string
  | Volume_Info_Ready "volume list"
  | Directory_Listing_Ready "entry list"
  | Filesystem_Opened bool string

fun is_progress :: "signal \<Rightarrow> bool" where
  "is_progress (Progress m) = True"
| "is_progress s = False"


text \<open>
  The keyword arguments of a worker. \<^verbatim>\<open>kwargs.get(k)\<close> does not tell an absent key from
  \<^verbatim>\<open>None\<close>; \<^verbatim>\<open>kwargs.get('list_path', "/")\<close> does, so that field has two levels.
\<close>

record kwargs =
  kw_task :: "string option"
  kw_image_path :: "string option"
  kw_partition_index :: "int option"
  kw_offset_sectors :: "int option"
  kw_list_path :: "string option option"
  kw_inode :: "int option"

definition no_kwargs :: kwargs where
  "no_kwargs = \<lparr>kw_task = None, kw_image_path = None, kw_partition_index = None,
                 kw_offset_sectors = None, kw_list_path = None, kw_inode = None\<rparr>"

text \<open>
  A worker: its arguments, the flag \<^verbatim>\<open>_is_running\<close> and the signals emitted so far.
  \<open>steps\<close> is not a field of the Python object: it counts the steps \<^verbatim>\<open>run\<close> has taken,
  a step being one emit or one test of the flag.
\<close>

record worker =
  w_kwargs :: kwargs
  is_running :: bool
  emitted :: "signal list"
  steps :: nat

definition BaseWorker_init :: "kwargs \<Rightarrow> worker" where
  "BaseWorker_init kw = \<lparr>w_kwargs = kw, is_running = True, emitted = [], steps = 0\<rparr>"

definition emit :: "signal \<Rightarrow> worker \<Rightarrow> worker" where
  "emit s w = w\<lparr>emitted := emitted w @ [s]\<rparr>"

definition stop :: "worker \<Rightarrow> worker" where
  "stop w = emit (Progress ''Stopping analysis...'') (w\<lparr>is_running := False\<rparr>)"

text \<open>
  \<^verbatim>\<open>stop\<close> is called from the interactive thread while \<^verbatim>\<open>run\<close> executes on the worker
  thread, and nothing synchronises the two: the request can land between any two steps
  of \<^verbatim>\<open>run\<close>, also between a test of the flag and the emit that the test guards. A
  schedule \<open>sp\<close> says before which step of \<^verbatim>\<open>run\<close> the request lands, if it does; a
  request that lands while \<^verbatim>\<open>run\<close> is inside a call into the handler lands before the
  step that follows the call. \<open>landing sp w\<close> is taken at the start of every step: the
  request lands there if the schedule says so, and the step is counted. A request made
  before \<^verbatim>\<open>run\<close> starts is also \<^const>\<open>stop\<close> applied to the worker that \<^verbatim>\<open>run\<close> is given.

  At most one request lands in a run: \<^verbatim>\<open>stop_analysis\<close> of the tab is the only caller of
  \<^verbatim>\<open>stop\<close>, and after the call it waits for the thread. The two lines of \<^verbatim>\<open>stop\<close> are
  taken as one step, so the progress message of the request is recorded at the place in
  the trace where the flag is cleared.
\<close>

definition landing :: "nat option \<Rightarrow> worker \<Rightarrow> worker" where
  "landing sp w = (if sp = Some (steps w) then stop w else w)\<lparr>steps := Suc (steps w)\<rparr>"

text \<open>One emit of \<^verbatim>\<open>run\<close>, as a step.\<close>

definition emit_step :: "nat option \<Rightarrow> signal \<Rightarrow> worker \<Rightarrow> worker" where
  "emit_step sp s w = emit s (landing sp w)"

text \<open>
  The branches of the \<^verbatim>\<open>try\<close> block of \<^verbatim>\<open>DiskAnalysisWorker.run\<close>. The result is the
  exception that leaves the block (\<open>None\<close> when it completes or returns), the handler,
  and the worker. Every \<^verbatim>\<open>if not self._is_running\<close> is a step of its own: the flag is
  read in the worker that \<^const>\<open>landing\<close> gives.
\<close>

definition run_get_volumes ::
  "nat option \<Rightarrow> env \<Rightarrow> handler \<Rightarrow> worker \<Rightarrow> exn option \<times> handler option \<times> worker" where
  "run_get_volumes sp ev h w =
     (let w1 = emit_step sp (Progress ''Reading volume information...'') w
      in case get_volume_info ev h of
           (Inl e, h1) \<Rightarrow> (Some e, Some h1, w1)
         | (Inr volumes, h1) \<Rightarrow>
             (let w2 = landing sp w1 in
              if \<not> is_running w2 then (None, Some h1, w2)
              else (None, Some h1, emit_step sp (Volume_Info_Ready volumes) w2)))"

text \<open>
  \<^verbatim>\<open>worker.py\<close> does not import \<^verbatim>\<open>pytsk3\<close>, so the lookup of the type name after a
  successful open raises \<^verbatim>\<open>NameError\<close>.
\<close>

definition run_open_fs ::
  "nat option \<Rightarrow> env \<Rightarrow> handler \<Rightarrow> worker \<Rightarrow> exn option \<times> handler option \<times> worker" where
  "run_open_fs sp ev h w =
     (let partition_index = kw_partition_index (w_kwargs w);
          offset_sectors = kw_offset_sectors (w_kwargs w);
          w1 = emit_step sp (Progress (''Attempting to open filesystem (Partition: ''
                                @ str_opt_int partition_index @ '', Offset: ''
                                @ str_opt_int offset_sectors @ '')...'')) w
      in case open_filesystem ev h partition_index offset_sectors of
           (success, h1) \<Rightarrow>
             (let w2 = landing sp w1 in
              if \<not> is_running w2 then (None, Some h1, w2)
              else if success \<and> fs_info h1 \<noteq> None
              then (Some (NameError ''name pytsk3 is not defined''), Some h1, w2)
              else (None, Some h1, emit_step sp (Filesystem_Opened success []) w2)))"

definition run_list_dir ::
  "nat option \<Rightarrow> env \<Rightarrow> handler \<Rightarrow> worker \<Rightarrow> exn option \<times> handler option \<times> worker" where
  "run_list_dir sp ev h w =
     (let partition_index = kw_partition_index (w_kwargs w);
          offset_sectors = kw_offset_sectors (w_kwargs w);
          list_path = (case kw_list_path (w_kwargs w) of None \<Rightarrow> Some ''/'' | Some p \<Rightarrow> p);
          inode = kw_inode (w_kwargs w);
          w1 = emit_step sp (Progress (''Opening filesystem to list directory: ''
                                @ str_opt list_path @ ''...'')) w
      in case open_filesystem ev h partition_index offset_sectors of
           (success, h1) \<Rightarrow>
             if \<not> success
             then (let w2 = landing sp w1 in
                   if \<not> is_running w2 then (None, Some h1, w2)
                   else (None, Some h1,
                         emit_step sp
                           (Error ''Failed to open filesystem before listing directory.'') w2))
             else
               (let w3 = emit_step sp
                           (Progress (''Listing directory: '' @ str_opt list_path @ ''...'')) w1
                in case list_directory ev h1 list_path inode of
                     (entries, h2) \<Rightarrow>
                       (let w4 = landing sp w3 in
                        if \<not> is_running w4 then (None, Some h2, w4)
                        else (None, Some h2,
                              emit_step sp (Directory_Listing_Ready entries) w4))))"

definition run_try ::
  "nat option \<Rightarrow> env \<Rightarrow> worker \<Rightarrow> exn option \<times> handler option \<times> worker" where
  "run_try sp ev w =
     (let task = kw_task (w_kwargs w);
          w1 = emit_step sp (Progress (''Starting disk task: '' @ str_opt task @ ''...'')) w
      in case DiskImageHandler_init ev (kw_image_path (w_kwargs w)) of
           Inl e \<Rightarrow> (Some e, None, w1)
         | Inr h \<Rightarrow>
             if task = Some ''get_volumes'' then run_get_volumes sp ev h w1
             else if task = Some ''open_fs'' then run_open_fs sp ev h w1
             else if task = Some ''list_dir'' then run_list_dir sp ev h w1
             else (Some (ValueError (''Unknown disk task: '' @ str_opt task)), Some h, w1))"

text \<open>
  The \<^verbatim>\<open>except Exception\<close> clause of \<^verbatim>\<open>run\<close>: it tests the flag and, if the flag is
  set, emits the error signal with the text of the exception.
\<close>

definition run_except :: "nat option \<Rightarrow> exn \<Rightarrow> worker \<Rightarrow> worker" where
  "run_except sp e w =
     (let w1 = landing sp w in
      if \<not> is_running w1 then w1
      else emit_step sp (Error (''Disk analysis error: '' @ exn_str e)) w1)"

text \<open>
  \<^verbatim>\<open>run\<close>: after the \<^verbatim>\<open>try\<close> block and the \<^verbatim>\<open>except\<close> clause, the \<^verbatim>\<open>finally\<close> clause
  closes the handler, tests the flag and emits \<^verbatim>\<open>finished\<close> if the flag is set. Nothing
  is raised past \<^verbatim>\<open>run\<close>: its result is the closed handler and the worker.
\<close>

definition run :: "nat option \<Rightarrow> env \<Rightarrow> worker \<Rightarrow> handler option \<times> worker" where
  "run sp ev w =
     (case run_try sp ev w of
        (r, hopt, w1) \<Rightarrow>
          (let w2 = (case r of None \<Rightarrow> w1 | Some e \<Rightarrow> run_except sp e w1);
               w3 = landing sp w2
           in (map_option close hopt,
               if is_running w3 then emit_step sp Finished w3 else w3)))"

section \<open>\<^verbatim>\<open>gui/disk_tab.py\<close>: \<^verbatim>\<open>DiskTab\<close>\<close>

text \<open>
  The fields of the tab that decide its control flow, the rows of its two tables (each
  row carries the data stored with it), the state of the Browse button and the message
  boxes shown so far. The texts of the status label and the status bar are display only
  and are left out. \<open>disk_thread = Some b\<close> is a thread object whose \<^verbatim>\<open>isRunning()\<close>
  is \<open>b\<close>.
\<close>

datatype dialog =
    Warning string ustr
  | Critical string ustr
  | Information string ustr

record tab =
  disk_worker :: "worker option"
  disk_thread :: "bool option"
  tab_image_path :: "string option"
  selected_partition_index :: "int option"
  selected_offset :: "int option"
  current_fs_open :: bool
  volume_table :: "volume list"
  file_listing_table :: "entry list"
  browse_enabled :: bool
  dialogs :: "dialog list"

definition DiskTab_init :: tab where
  "DiskTab_init =
     \<lparr>disk_worker = None, disk_thread = None, tab_image_path = None,
      selected_partition_index = None, selected_offset = None, current_fs_open = False,
      volume_table = [], file_listing_table = [], browse_enabled = True, dialogs = []\<rparr>"

definition message_box :: "dialog \<Rightarrow> tab \<Rightarrow> tab" where
  "message_box d t = t\<lparr>dialogs := dialogs t @ [d]\<rparr>"

text \<open>\<^verbatim>\<open>self._disk_thread and self._disk_thread.isRunning()\<close>\<close>

definition thread_is_running :: "tab \<Rightarrow> bool" where
  "thread_is_running t = (disk_thread t = Some True)"

text \<open>The truth value of \<^verbatim>\<open>self._image_path\<close>: neither \<^verbatim>\<open>None\<close> nor empty.\<close>

definition has_image :: "tab \<Rightarrow> bool" where
  "has_image t = (case tab_image_path t of None \<Rightarrow> False | Some p \<Rightarrow> p \<noteq> [])"

definition start_disk_analysis :: "string \<Rightarrow> kwargs \<Rightarrow> tab \<Rightarrow> tab" where
  "start_disk_analysis task kw t =
     (if \<not> has_image t
      then message_box (Warning ''No Image'' (ascii ''Please select a disk image first.'')) t
      else if thread_is_running t
      then message_box (Warning ''Busy'' (ascii ''Disk analysis is already in progress.'')) t
      else t\<lparr>browse_enabled := False,
             disk_thread := Some True,
             disk_worker :=
               Some (BaseWorker_init (kw\<lparr>kw_task := Some task,
                                          kw_image_path := tab_image_path t\<rparr>))\<rparr>)"

definition on_disk_analysis_finished :: "tab \<Rightarrow> tab" where
  "on_disk_analysis_finished t =
     t\<lparr>browse_enabled := True, disk_thread := None, disk_worker := None\<rparr>"

text \<open>
  \<^verbatim>\<open>stop_analysis\<close>: the worker is asked to stop, the thread is quit (and terminated if
  it does not end within the wait), and the cleanup slot is called directly.
\<close>

definition stop_analysis :: "tab \<Rightarrow> tab" where
  "stop_analysis t =
     (if thread_is_running t
      then on_disk_analysis_finished (t\<lparr>disk_worker := map_option stop (disk_worker t)\<rparr>)
      else t)"

text \<open>\<^verbatim>\<open>_browse_image\<close>; \<open>file_path\<close> is what the file dialog returns, empty when cancelled.\<close>

definition browse_image :: "string \<Rightarrow> tab \<Rightarrow> tab" where
  "browse_image file_path t =
     (let t1 = stop_analysis t in
      if file_path \<noteq> []
      then start_disk_analysis ''get_volumes'' no_kwargs
             (t1\<lparr>tab_image_path := Some file_path,
                 volume_table := [],
                 file_listing_table := [],
                 selected_partition_index := None,
                 selected_offset := None,
                 current_fs_open := False\<rparr>)
      else t1\<lparr>tab_image_path := None\<rparr>)"

definition display_volumes :: "volume list \<Rightarrow> tab \<Rightarrow> tab" where
  "display_volumes volumes t =
     (let t1 = t\<lparr>volume_table := []\<rparr> in
      if volumes = [] then t1 else t1\<lparr>volume_table := volumes\<rparr>)"

text \<open>
  \<^verbatim>\<open>_show_error\<close>: a message box only for the messages that contain one of two phrases.
\<close>

definition show_error :: "string \<Rightarrow> tab \<Rightarrow> tab" where
  "show_error message t =
     (if str_contains message ''Failed to open'' \<or> str_contains message ''Requirement Error''
      then message_box (Critical ''Disk Analysis Error'' (ascii message)) t
      else t)"

text \<open>
  \<^verbatim>\<open>_volume_selected\<close>; the index of the double click is valid when its row is one of the
  table. Slot and start sector are both stored; for the volume whose description says
  \<^verbatim>\<open>Potential Filesystem\<close> the slot is cleared and the offset is 0.
\<close>

definition volume_selected :: "nat \<Rightarrow> tab \<Rightarrow> tab" where
  "volume_selected row t =
     (if \<not> row < length (volume_table t) then t
      else
        (let v = volume_table t ! row;
             t1 = t\<lparr>file_listing_table := [],
                     selected_partition_index := Some (v_slot v),
                     selected_offset := Some (v_start_sector v),
                     current_fs_open := False\<rparr>
         in if str_contains (v_desc v) (ascii ''Potential Filesystem'')
            then (let t2 = t1\<lparr>selected_partition_index := None, selected_offset := Some 0\<rparr>
                  in start_disk_analysis ''list_dir''
                       (no_kwargs\<lparr>kw_offset_sectors := selected_offset t2,
                                  kw_list_path := Some (Some ''/'')\<rparr>) t2)
            else start_disk_analysis ''list_dir''
                   (no_kwargs\<lparr>kw_partition_index := selected_partition_index t1,
                              kw_list_path := Some (Some ''/'')\<rparr>) t1))"

definition on_filesystem_opened :: "bool \<Rightarrow> string \<Rightarrow> tab \<Rightarrow> tab" where
  "on_filesystem_opened success message t =
     (let t1 = t\<lparr>current_fs_open := success\<rparr> in
      if success then t1
      else show_error (''Could not open filesystem for partition/offset ''
                        @ str_opt_int (selected_partition_index t1) @ ''/''
                        @ str_opt_int (selected_offset t1)
                        @ ''. Check FS type/corruption.'') t1)"

definition display_directory_listing :: "entry list \<Rightarrow> tab \<Rightarrow> tab" where
  "display_directory_listing entries t =
     (let t1 = t\<lparr>file_listing_table := []\<rparr> in
      if \<not> current_fs_open t1 then t1
      else if entries = [] \<and> current_fs_open t1 then t1
      else t1\<lparr>file_listing_table := entries\<rparr>)"

text \<open>
  \<^verbatim>\<open>_file_double_clicked\<close>: for a directory the listing task gets \<^verbatim>\<open>list_path = None\<close>,
  the inode of the row, and the partition index if one is stored, else the offset.
\<close>

definition file_double_clicked :: "nat \<Rightarrow> tab \<Rightarrow> tab" where
  "file_double_clicked row t =
     (if \<not> row < length (file_listing_table t) \<or> \<not> current_fs_open t then t
      else
        (let en = file_listing_table t ! row;
             kw = no_kwargs\<lparr>kw_list_path := Some None, kw_inode := Some (e_inode en)\<rparr>
         in if e_type en = ''TSK_FS_META_TYPE_DIR''
            then (case selected_partition_index t of
                    Some p \<Rightarrow>
                      start_disk_analysis ''list_dir'' (kw\<lparr>kw_partition_index := Some p\<rparr>) t
                  | None \<Rightarrow>
                      (case selected_offset t of
                         Some off \<Rightarrow>
                           start_disk_analysis ''list_dir'' (kw\<lparr>kw_offset_sectors := Some off\<rparr>) t
                       | None \<Rightarrow>
                           show_error
                             ''Cannot navigate: No valid partition or offset selected.'' t))
            else message_box
                   (Information ''File Clicked''
                      (ascii ''You clicked on file: '' @ e_name en
                       @ ascii (''\<newline>Inode: '' @ str_int (e_inode en)
                                @ ''\<newline>\<newline>(Further actions like viewing or extracting are not yet implemented).'')))
                   t))"

text \<open>
  What can happen to the tab: the user's actions (the Browse button can be clicked only
  while it is enabled), the slots run by the signals of a worker, the worker thread
  ceasing to run, and the slot of the thread's own \<^verbatim>\<open>finished\<close> signal. Slots may run
  with any payload at any time; the reachable states of the tab are among those
  reachable here.
\<close>

datatype event =
    Browse string
  | Volume_Double_Clicked nat
  | File_Double_Clicked nat
  | Slot_Volume_Info_Ready "volume list"
  | Slot_Directory_Listing_Ready "entry list"
  | Slot_Filesystem_Opened bool string
  | Slot_Error string
  | Thread_Exits
  | Thread_Finished
  | Close_Event

fun step :: "tab \<Rightarrow> event \<Rightarrow> tab" where
  "step t (Browse file_path) = (if browse_enabled t then browse_image file_path t else t)"
| "step t (Volume_Double_Clicked row) = volume_selected row t"
| "step t (File_Double_Clicked row) = file_double_clicked row t"
| "step t (Slot_Volume_Info_Ready volumes) = display_volumes volumes t"
| "step t (Slot_Directory_Listing_Ready entries) = display_directory_listing entries t"
| "step t (Slot_Filesystem_Opened success message) = on_filesystem_opened success message t"
| "step t (Slot_Error message) = show_error message t"
| "step t Thread_Exits = t\<lparr>disk_thread := map_option (\<lambda>b. False) (disk_thread t)\<rparr>"
| "step t Thread_Finished = on_disk_analysis_finished t"
| "step t Close_Event = stop_analysis t"

inductive reachable :: "tab \<Rightarrow> bool" where
  reachable_init: "reachable DiskTab_init"
| reachable_step: "reachable t \<Longrightarrow> reachable (step t ev)"

text \<open>The signals emitted after the first stop request, which \<^const>\<open>stop\<close> marks in the trace.\<close>

definition after_stop :: "signal list \<Rightarrow> signal list" where
  "after_stop sigs = tl (dropWhile (\<lambda>s. s \<noteq> Progress ''Stopping analysis...'') sigs)"

text \<open>Exactly one of two optional values is set.\<close>

definition exactly_one :: "'a option \<Rightarrow> 'b option \<Rightarrow> bool" where
  "exactly_one a b = ((a = None) \<noteq> (b = None))"

section \<open>Invariants\<close>

text \<open>
  While \<^verbatim>\<open>run\<close> executes, before \<^verbatim>\<open>finished\<close>: a running worker has no stop request in
  its trace, and in the trace of a stopped one everything that follows the request,
  but for the signal right after it, is a progress message.
\<close>

definition in_flight :: "worker \<Rightarrow> bool" where
  "in_flight w =
     (Finished \<notin> set (emitted w) \<and>
      (if is_running w then Progress ''Stopping analysis...'' \<notin> set (emitted w)
       else \<forall>s \<in> set (tl (after_stop (emitted w))). is_progress s))"

text \<open>A worker stopped before it has emitted anything but progress messages.\<close>

definition silenced :: "worker \<Rightarrow> bool" where
  "silenced w = (\<not> is_running w \<and> (\<forall>s \<in> set (emitted w). is_progress s))"

text \<open>A tab whose thread is running has an image selected.\<close>

definition run_inv :: "tab \<Rightarrow> bool" where
  "run_inv t = (thread_is_running t \<longrightarrow> has_image t)"

text \<open>
  The stored offset is set whenever the stored partition index is, and a listing task
  held by the tab was given exactly one of the two.
\<close>

definition nav_inv :: "tab \<Rightarrow> bool" where
  "nav_inv t =
     ((selected_offset t = None \<longrightarrow> selected_partition_index t = None) \<and>
      (\<forall>w. disk_worker t = Some w \<and> kw_task (w_kwargs w) = Some ''list_dir'' \<longrightarrow>
         exactly_one (kw_partition_index (w_kwargs w)) (kw_offset_sectors (w_kwargs w))))"


section \<open>An image for concrete runs\<close>

text \<open>
  A raw image without a partition table that holds one filesystem at offset 0: a root
  directory (inode 2) and a subdirectory \<^verbatim>\<open>Docs\<close> (inode 5).
\<close>

definition ascii_lower :: "ustr \<Rightarrow> ustr" where
  "ascii_lower s = map (\<lambda>c. if 65 \<le> c \<and> c \<le> 90 then c + 32 else c) s"

definition ex_file :: "bytes \<Rightarrow> int \<Rightarrow> string \<Rightarrow> file_info" where
  "ex_file n a ty =
     \<lparr>name_name = n, name_flags = 1,
      f_meta = Some \<lparr>m_addr = a, m_type_name = Inr ty, m_mode = 493, m_size = 0,
                     m_mtime = 0, m_atime = 0, m_ctime = 0, m_crtime = 0\<rparr>\<rparr>"

definition ex_root :: directory where
  "ex_root =
     \<lparr>dir_addr = Some 2,
      dir_files = [ex_file ''.'' 2 ''TSK_FS_META_TYPE_DIR'',
                   ex_file ''..'' 2 ''TSK_FS_META_TYPE_DIR'',
                   ex_file ''$MFT'' 0 ''TSK_FS_META_TYPE_REG'',
                   ex_file ''b.txt'' 7 ''TSK_FS_META_TYPE_REG'',
                   ex_file ''Docs'' 5 ''TSK_FS_META_TYPE_DIR'',
                   ex_file ''A.txt'' 8 ''TSK_FS_META_TYPE_REG''],
      dir_iter_error = None\<rparr>"

definition ex_docs :: directory where
  "ex_docs =
     \<lparr>dir_addr = Some 5,
      dir_files = [ex_file ''.'' 5 ''TSK_FS_META_TYPE_DIR'',
                   ex_file ''..'' 2 ''TSK_FS_META_TYPE_DIR'',
                   ex_file ''z'' 9 ''TSK_FS_META_TYPE_REG'',
                   ex_file ''Sub'' 10 ''TSK_FS_META_TYPE_DIR''],
      dir_iter_error = None\<rparr>"

definition ex_fs :: fs where
  "ex_fs =
     \<lparr>root_inum = 2,
      ftype_name = Inr ''TSK_FS_TYPE_EXT4'',
      open_dir = (\<lambda>r. if r = ByPath (Some ''/'') \<or> r = ByInode 2 then Inr ex_root
                       else if r = ByInode 5 then Inr ex_docs
                       else Inl (OSError ''Unable to open directory''))\<rparr>"

text \<open>
  The image object answers the size query; it has no block-size query, so the call
  raises \<^verbatim>\<open>AttributeError\<close>.
\<close>

definition ex_img :: img where
  "ex_img =
     \<lparr>get_size = Inr 1048576,
      get_block_size =
        Inl (AttributeError ''pytsk3.Img_Info object has no attribute get_block_size'')\<rparr>"

definition ex_env :: env where
  "ex_env =
     \<lparr>Img_Info = (\<lambda>p. if p = Some ''disk.dd'' then Inr ex_img
                        else Inl (OSError ''Unable to open image'')),
      Volume_Info = (\<lambda>i. Inl (OSError ''Cannot determine partition type'')),
      FS_Info = (\<lambda>i off. if off = Some 0 then Inr ex_fs
                          else Inl (OSError ''Cannot determine file system type'')),
      str_lower = ascii_lower,
      strftime_local = (\<lambda>ts. Inr ''2024-01-01 00:00:00'')\<rparr>"

definition ex_handler :: handler where
  "ex_handler =
     \<lparr>image_path = Some ''disk.dd'', img_info = Some ex_img, volume_info = None,
      fs_info = None, partition_offset = None, calls = [Call_Img_Info (Some ''disk.dd'')]\<rparr>"

definition ex_worker :: "string \<Rightarrow> worker" where
  "ex_worker task =
     BaseWorker_init (no_kwargs\<lparr>kw_task := Some task, kw_image_path := Some ''disk.dd'',
                                kw_offset_sectors := Some 0\<rparr>)"

text \<open>The handler after the filesystem at offset 0 has been opened.\<close>

definition ex_handler_open :: handler where
  "ex_handler_open = snd (open_filesystem ex_env ex_handler None (Some 0))"

text \<open>A listing task for an offset at which the library finds no filesystem.\<close>

definition ex_worker_open_fails :: worker where
  "ex_worker_open_fails =
     BaseWorker_init (no_kwargs\<lparr>kw_task := Some ''list_dir'', kw_image_path := Some ''disk.dd'',
                                kw_offset_sectors := Some 63,
                                kw_list_path := Some (Some ''/'')\<rparr>)"


text \<open>
  A tab: right after an image was chosen (its first task still running), after a volume
  list with one regular partition has arrived, and after that partition was
  double-clicked.
\<close>

definition ex_volume_ntfs :: volume where
  "ex_volume_ntfs =
     \<lparr>v_slot = 1, v_desc = ascii ''NTFS / exFAT (0x07)'', v_start_sector = 2048,
      v_num_sectors = 204800, v_flags = ''TSK_VS_PART_FLAG_ALLOC''\<rparr>"

definition ex_tab_busy :: tab where
  "ex_tab_busy = step DiskTab_init (Browse ''disk.dd'')"

definition ex_tab_volumes_listed :: tab where
  "ex_tab_volumes_listed =
     foldl step ex_tab_busy
       [Thread_Exits, Slot_Volume_Info_Ready [ex_volume_ntfs], Thread_Finished]"

definition ex_tab_volume_selected :: tab where
  "ex_tab_volume_selected = step ex_tab_volumes_listed (Volume_Double_Clicked 0)"



section \<open>Properties of the handler\<close>

subsection \<open>Decoded names\<close>

text \<open>
  An ASCII lead byte decodes to itself; any other lead byte gives a code point from 128
  on. So a decoded name that starts with an ASCII character comes from bytes that start
  with it.
\<close>

lemma utf8_step_ascii: "b < 128 \<Longrightarrow> utf8_step b bs = (b, 0)"
  by (simp add: utf8_step_def)

lemma utf8_step_nonascii: "\<not> b < 128 \<Longrightarrow> 128 \<le> fst (utf8_step b bs)"
  by (auto simp: utf8_step_def is_cont_def second_ok3_def second_ok4_def
           split: list.splits if_splits)

lemma utf8_decode_Nil_iff: "utf8_decode bs = [] \<longleftrightarrow> bs = []"
  by (cases bs) (auto split: prod.splits)

lemma utf8_decode_ascii_head:
  assumes "utf8_decode bs = c # cs" and "c < 128"
  shows "\<exists>bs'. bs = c # bs' \<and> utf8_decode bs' = cs"
proof (cases bs)
  case Nil
  with assms show ?thesis by simp
next
  case (Cons b bs')
  show ?thesis
  proof (cases "b < 128")
    case True
    with assms Cons show ?thesis by (simp add: utf8_step_ascii)
  next
    case False
    from utf8_step_nonascii [OF False, of bs'] assms Cons show ?thesis
      by (auto split: prod.splits)
  qed
qed

lemma map_of_char_eq_Cons:
  assumes "map of_char s = (of_char (a::char) :: nat) # r"
  shows "\<exists>s'. s = a # s' \<and> map of_char s' = r"
  using assms by (cases s) auto

lemma decode_ascii_Cons:
  assumes "decode s = of_char (a::char) # cs" and "of_char a < (128::nat)"
  shows "\<exists>s'. s = a # s' \<and> decode s' = cs"
proof -
  from assms(1) have "utf8_decode (map of_char s) = of_char a # cs"
    by (simp add: decode_def)
  from utf8_decode_ascii_head [OF this assms(2)]
  obtain bs' where m: "map of_char s = (of_char a :: nat) # bs'" and u: "utf8_decode bs' = cs"
    by auto
  from map_of_char_eq_Cons [OF m] obtain s' where "s = a # s'" and "map of_char s' = bs'"
    by auto
  with u show ?thesis
    by (auto simp: decode_def)
qed

lemma decode_Nil_iff: "decode s = [] \<longleftrightarrow> s = []"
  by (simp add: decode_def utf8_decode_Nil_iff)

lemma decode_dot: "decode s = ascii ''.'' \<Longrightarrow> s = ''.''"
  using decode_ascii_Cons [of s "CHR ''.''" "[]"] by (auto simp: ascii_def decode_Nil_iff)

lemma decode_dotdot: "decode s = ascii ''..'' \<Longrightarrow> s = ''..''"
  using decode_ascii_Cons [of s "CHR ''.''" "ascii ''.''"] decode_dot
  by (auto simp: ascii_def)

lemma startswith_single: "startswith xs [a] \<longleftrightarrow> (\<exists>r. xs = a # r)"
  by (cases xs) (auto simp: startswith_def)

lemma decode_dollar: "startswith (decode s) (ascii ''$'') \<Longrightarrow> startswith s ''$''"
  using decode_ascii_Cons [of s "CHR ''$''"]
  by (auto simp: ascii_def startswith_single)

subsection \<open>The entries of a listing\<close>

lemma make_entry_name: "make_entry ev x = Inr en \<Longrightarrow> e_name en = decode (name_name x)"
  by (auto simp: make_entry_def split: option.splits sum.splits)

lemma visit_Some:
  assumes "visit ev f d x = Inr (Some en)"
  shows "e_name en = decode (name_name x)"
    and "\<not> startswith (name_name x) ''$''"
    and "name_name x = ''.'' \<or> name_name x = ''..'' \<Longrightarrow> dir_addr d = Some (root_inum f)"
  using assms
  by (auto simp: visit_def Let_def make_entry_name
           split: option.splits sum.splits if_splits bool.splits)

lemma collect_entries_mem:
  "collect_entries ev f d xs = Inr es \<Longrightarrow> en \<in> set es \<Longrightarrow>
     \<exists>x \<in> set xs. visit ev f d x = Inr (Some en)"
proof (induction xs arbitrary: es)
  case Nil
  then show ?case by simp
next
  case (Cons x xs)
  then show ?case
    by (fastforce split: sum.splits option.splits)
qed

lemma list_directory_mem:
  assumes "en \<in> set (fst (list_directory ev h path inode))"
  obtains f d x where "fs_info h = Some f" and "open_dir f (dir_ref_of path inode) = Inr d"
    and "x \<in> set (dir_files d)" and "visit ev f d x = Inr (Some en)"
proof -
  from assms obtain f where f: "fs_info h = Some f"
    by (auto simp: list_directory_def split: option.splits)
  from assms f obtain d where d: "open_dir f (dir_ref_of path inode) = Inr d"
    by (auto simp: list_directory_def Let_def split: sum.splits)
  from assms f d obtain es where es: "collect_entries ev f d (dir_files d) = Inr es"
    and mem: "en \<in> set es"
    by (auto simp: list_directory_def Let_def split: sum.splits option.splits)
  from collect_entries_mem [OF es mem] f d that show thesis by blast
qed

lemma list_directory_sorted:
  "sorted (map (entry_key ev) (fst (list_directory ev h path inode)))"
  by (auto simp: list_directory_def Let_def split: option.splits sum.splits)

lemma ex_handler_open_eq:
  "ex_handler_open =
     ex_handler\<lparr>fs_info := Some ex_fs, partition_offset := Some 0,
                 calls := [Call_Img_Info (Some ''disk.dd''), Call_FS_Info (Some 0)]\<rparr>"
  by (simp add: ex_handler_open_def open_filesystem_def open_filesystem_try_def
        locate_partition_def ex_handler_def ex_env_def ex_fs_def called_def Let_def)

text \<open>
  C4. Whatever \<^verbatim>\<open>list_directory\<close> returns: an entry named \<^verbatim>\<open>.\<close> or \<^verbatim>\<open>..\<close> occurs
  only when the listed directory is the root of the filesystem; no entry's name starts
  with \<^verbatim>\<open>$\<close>; and the entries are in order, every directory before every entry that
  is not one and, among entries of the same kind, the lower-cased names non-decreasing.
\<close>

theorem list_directory_filter_sort:
  assumes res: "list_directory ev h path inode = (es, h')"
  shows "(\<forall>en \<in> set es.
            ((e_name en = ascii ''.'' \<or> e_name en = ascii ''..'') \<longrightarrow> lists_root h path inode)
            \<and> \<not> startswith (e_name en) (ascii ''$''))
       \<and> (\<forall>i j. i < j \<and> j < length es \<longrightarrow>
            (e_type (es ! j) = ''TSK_FS_META_TYPE_DIR'' \<longrightarrow> e_type (es ! i) = ''TSK_FS_META_TYPE_DIR'')
            \<and> ((e_type (es ! i) = ''TSK_FS_META_TYPE_DIR'') = (e_type (es ! j) = ''TSK_FS_META_TYPE_DIR'')
                 \<longrightarrow> str_lower ev (e_name (es ! i)) \<le> str_lower ev (e_name (es ! j))))"
proof (intro conjI ballI allI impI)
  fix en assume mem: "en \<in> set es" and dots: "e_name en = ascii ''.'' \<or> e_name en = ascii ''..''"
  from mem res have "en \<in> set (fst (list_directory ev h path inode))" by simp
  then obtain f d x where f: "fs_info h = Some f"
    and d: "open_dir f (dir_ref_of path inode) = Inr d"
    and v: "visit ev f d x = Inr (Some en)"
    by (auto elim: list_directory_mem)
  from visit_Some(1) [OF v] dots have "name_name x = ''.'' \<or> name_name x = ''..''"
    using decode_dot decode_dotdot by auto
  with visit_Some(3) [OF v] have "dir_addr d = Some (root_inum f)" by simp
  with f d show "lists_root h path inode" by (simp add: lists_root_def)
next
  fix en assume mem: "en \<in> set es"
  from mem res have "en \<in> set (fst (list_directory ev h path inode))" by simp
  then obtain f d x where v: "visit ev f d x = Inr (Some en)"
    by (auto elim: list_directory_mem)
  from visit_Some(1,2) [OF v] show "\<not> startswith (e_name en) (ascii ''$'')"
    using decode_dollar by auto
next
  fix i j assume ij: "i < j \<and> j < length es"
  have "sorted (map (entry_key ev) es)"
    using list_directory_sorted [of ev h path inode] res by simp
  with ij have k: "entry_key ev (es ! i) \<le> entry_key ev (es ! j)"
    by (simp add: sorted_iff_nth_mono)
  {
    assume "e_type (es ! j) = ''TSK_FS_META_TYPE_DIR''"
    with k show "e_type (es ! i) = ''TSK_FS_META_TYPE_DIR''"
      by (auto simp: entry_key_def less_eq_prod_def)
  }
  {
    assume "(e_type (es ! i) = ''TSK_FS_META_TYPE_DIR'') = (e_type (es ! j) = ''TSK_FS_META_TYPE_DIR'')"
    with k show "str_lower ev (e_name (es ! i)) \<le> str_lower ev (e_name (es ! j))"
      by (auto simp: entry_key_def less_eq_prod_def)
  }
qed

theorem list_directory_filter_sort_witness:
  "map e_name (fst (list_directory ex_env ex_handler_open None (Some 5)))
     = [ascii ''Sub'', ascii ''z'']
   \<and> \<not> lists_root ex_handler_open None (Some 5)
   \<and> \<not> startswith (e_name (hd (fst (list_directory ex_env ex_handler_open None (Some 5)))))
                     (ascii ''$'')
   \<and> map e_name (fst (list_directory ex_env ex_handler_open (Some ''/'') None))
     = [ascii ''.'', ascii ''..'', ascii ''Docs'', ascii ''A.txt'', ascii ''b.txt'']
   \<and> map e_type (fst (list_directory ex_env ex_handler_open (Some ''/'') None))
     = [''TSK_FS_META_TYPE_DIR'', ''TSK_FS_META_TYPE_DIR'', ''TSK_FS_META_TYPE_DIR'',
        ''TSK_FS_META_TYPE_REG'', ''TSK_FS_META_TYPE_REG'']
   \<and> lists_root ex_handler_open (Some ''/'') None
   \<and> str_lower ex_env (e_name (fst (list_directory ex_env ex_handler_open (Some ''/'') None) ! 3))
       \<le> str_lower ex_env (e_name (fst (list_directory ex_env ex_handler_open (Some ''/'') None) ! 4))"
proof -
  obtain es h' where l: "list_directory ex_env ex_handler_open None (Some 5) = (es, h')"
    by (cases "list_directory ex_env ex_handler_open None (Some 5)")
  obtain rs h'' where l2: "list_directory ex_env ex_handler_open (Some ''/'') None = (rs, h'')"
    by (cases "list_directory ex_env ex_handler_open (Some ''/'') None")
  have n: "map e_name (fst (list_directory ex_env ex_handler_open None (Some 5)))
             = [ascii ''Sub'', ascii ''z'']"
    by code_simp
  have r: "\<not> lists_root ex_handler_open None (Some 5)"
    by code_simp
  have n2: "map e_name (fst (list_directory ex_env ex_handler_open (Some ''/'') None))
     = [ascii ''.'', ascii ''..'', ascii ''Docs'', ascii ''A.txt'', ascii ''b.txt'']"
    by code_simp
  have t2: "map e_type (fst (list_directory ex_env ex_handler_open (Some ''/'') None))
     = [''TSK_FS_META_TYPE_DIR'', ''TSK_FS_META_TYPE_DIR'', ''TSK_FS_META_TYPE_DIR'',
        ''TSK_FS_META_TYPE_REG'', ''TSK_FS_META_TYPE_REG'']"
    by code_simp
  have r2: "lists_root ex_handler_open (Some ''/'') None"
    by code_simp
  from n l have "es \<noteq> []" by auto
  then have "hd es \<in> set es" by simp
  with list_directory_filter_sort [OF l]
  have d: "\<not> startswith (e_name (hd es)) (ascii ''$'')" by blast
  from t2 l2 have len: "length rs = 5" and ty: "e_type (rs ! 3) = e_type (rs ! 4)"
    by (auto simp: map_eq_Cons_conv)
  from list_directory_filter_sort [OF l2] len
  have "(e_type (rs ! 3) = ''TSK_FS_META_TYPE_DIR'') = (e_type (rs ! 4) = ''TSK_FS_META_TYPE_DIR'')
          \<longrightarrow> str_lower ex_env (e_name (rs ! 3)) \<le> str_lower ex_env (e_name (rs ! 4))"
    by simp
  with ty have "str_lower ex_env (e_name (rs ! 3)) \<le> str_lower ex_env (e_name (rs ! 4))"
    by simp
  with n r d n2 t2 r2 l l2 show ?thesis by simp
qed

subsection \<open>Opening a filesystem\<close>

text \<open>
  C2. When both \<^verbatim>\<open>partition_index\<close> and \<^verbatim>\<open>offset_sectors\<close> are given, or neither is,
  \<^verbatim>\<open>open_filesystem\<close> returns \<^verbatim>\<open>False\<close> and makes no call into the library: the handler
  it leaves is the one it was given with both fields reset, and the log of calls is
  unchanged.
\<close>

theorem open_filesystem_precondition:
  assumes "(partition_index \<noteq> None \<and> offset_sectors \<noteq> None)
           \<or> (partition_index = None \<and> offset_sectors = None)"
  shows "open_filesystem ev h partition_index offset_sectors
           = (False, h\<lparr>fs_info := None, partition_offset := None\<rparr>)
       \<and> calls (snd (open_filesystem ev h partition_index offset_sectors)) = calls h"
  using assms by (auto simp: open_filesystem_def)

theorem open_filesystem_precondition_witness:
  "open_filesystem ex_env ex_handler (Some 1) (Some 2048) = (False, ex_handler)
   \<and> calls (snd (open_filesystem ex_env ex_handler (Some 1) (Some 2048)))
       = [Call_Img_Info (Some ''disk.dd'')]
   \<and> open_filesystem ex_env ex_handler None None = (False, ex_handler)"
proof -
  have both: "(Some (1::int) \<noteq> None \<and> Some (2048::int) \<noteq> None)
              \<or> (Some (1::int) = None \<and> Some (2048::int) = None)"
    by simp
  have neither: "((None::int option) \<noteq> None \<and> (None::int option) \<noteq> None)
              \<or> ((None::int option) = None \<and> (None::int option) = None)"
    by simp
  from open_filesystem_precondition [OF both, of ex_env ex_handler]
       open_filesystem_precondition [OF neither, of ex_env ex_handler]
  show ?thesis by (simp add: ex_handler_def)
qed

lemma locate_partition_fs_info:
  "locate_partition h p off = (r, h1) \<Longrightarrow> fs_info h1 = fs_info h"
  by (auto simp: locate_partition_def called_def Let_def
           split: option.splits sum.splits exn.splits)

lemma locate_partition_False:
  "locate_partition h p off = (Inr False, h1) \<Longrightarrow> partition_offset h1 = partition_offset h"
  by (auto simp: locate_partition_def called_def Let_def
           split: option.splits sum.splits exn.splits)

lemma open_filesystem_try_False:
  assumes "open_filesystem_try ev h p off = (Inr False, h1)"
  shows "fs_info h1 = fs_info h \<and> partition_offset h1 = partition_offset h"
  using assms locate_partition_fs_info locate_partition_False
  by (fastforce simp: open_filesystem_try_def called_def Let_def
                split: prod.splits sum.splits bool.splits)

lemma open_filesystem_try_True:
  assumes "open_filesystem_try ev h p off = (Inr True, h1)"
  shows "fs_info h1 \<noteq> None"
  using assms
  by (auto simp: open_filesystem_try_def called_def Let_def
           split: prod.splits sum.splits bool.splits)

lemma open_filesystem_fs_info:
  assumes "open_filesystem ev h partition_index offset_sectors = (r, h')"
  shows "(r \<longleftrightarrow> fs_info h' \<noteq> None) \<and> (\<not> r \<longrightarrow> partition_offset h' = None)"
proof (cases "(partition_index \<noteq> None \<and> offset_sectors \<noteq> None)
              \<or> (partition_index = None \<and> offset_sectors = None)")
  case True
  with assms show ?thesis by (auto simp: open_filesystem_def)
next
  case False
  let ?h0 = "h\<lparr>fs_info := None, partition_offset := None\<rparr>"
  obtain res h1 where t: "open_filesystem_try ev ?h0 partition_index offset_sectors = (res, h1)"
    by (cases "open_filesystem_try ev ?h0 partition_index offset_sectors")
  show ?thesis
  proof (cases res)
    case (Inl e)
    with assms False t show ?thesis by (auto simp: open_filesystem_def)
  next
    case (Inr b)
    with assms False t have eq: "r = b" "h' = h1" by (auto simp: open_filesystem_def)
    show ?thesis
    proof (cases b)
      case True
      with t Inr open_filesystem_try_True [of ev ?h0 partition_index offset_sectors h1] eq
      show ?thesis by simp
    next
      case False
      with t Inr open_filesystem_try_False [of ev ?h0 partition_index offset_sectors h1] eq
      show ?thesis by simp
    qed
  qed
qed

text \<open>
  C10. \<^verbatim>\<open>open_filesystem\<close> returns \<^verbatim>\<open>True\<close> exactly when it leaves \<^verbatim>\<open>fs_info\<close> set. After
  a failed open \<^verbatim>\<open>fs_info\<close> and \<^verbatim>\<open>partition_offset\<close> are both \<^verbatim>\<open>None\<close>, and
  \<^verbatim>\<open>list_directory\<close> on that handler returns the empty list without calling the library.
\<close>

theorem open_filesystem_result:
  assumes "open_filesystem ev h partition_index offset_sectors = (r, h')"
  shows "(r \<longleftrightarrow> fs_info h' \<noteq> None)
       \<and> (\<not> r \<longrightarrow> fs_info h' = None \<and> partition_offset h' = None
                  \<and> list_directory ev h' path inode = ([], h'))"
  using open_filesystem_fs_info [OF assms] by (auto simp: list_directory_def)

theorem open_filesystem_result_witness:
  "open_filesystem ex_env ex_handler None (Some 63)
     = (False, ex_handler\<lparr>calls := [Call_Img_Info (Some ''disk.dd''), Call_FS_Info (Some 32256)]\<rparr>)
   \<and> fs_info (snd (open_filesystem ex_env ex_handler None (Some 63))) = None
   \<and> partition_offset (snd (open_filesystem ex_env ex_handler None (Some 63))) = None
   \<and> fst (list_directory ex_env (snd (open_filesystem ex_env ex_handler None (Some 63)))
            (Some ''/'') None) = []
   \<and> open_filesystem ex_env ex_handler None (Some 0) = (True, ex_handler_open)
   \<and> fs_info ex_handler_open = Some ex_fs"
proof -
  have bad: "open_filesystem ex_env ex_handler None (Some 63)
     = (False, ex_handler\<lparr>calls := [Call_Img_Info (Some ''disk.dd''), Call_FS_Info (Some 32256)]\<rparr>)"
    by (simp add: open_filesystem_def open_filesystem_try_def locate_partition_def
          ex_handler_def ex_env_def called_def Let_def)
  have good: "open_filesystem ex_env ex_handler None (Some 0) = (True, ex_handler_open)"
    by (simp add: ex_handler_open_eq)
       (simp add: open_filesystem_def open_filesystem_try_def locate_partition_def
          ex_handler_def ex_env_def ex_fs_def called_def Let_def)
  from open_filesystem_result [OF bad, of "Some ''/''" None]
       open_filesystem_result [OF good, of None None] bad good
  show ?thesis by (simp add: ex_handler_open_eq)
qed

subsection \<open>Enumerating volumes\<close>

text \<open>
  C3, what the code does. When the volume-system probe raises \<^verbatim>\<open>IOError\<close> and the
  block-size query of the image object raises in turn, \<^verbatim>\<open>get_volume_info\<close> returns
  no synthetic volume and no empty list: the second exception leaves the method,
  because the query runs inside the \<^verbatim>\<open>except IOError\<close> clause.
\<close>

theorem get_volume_info_raises_in_except:
  assumes "Volume_Info ev (img_info h) = Inl (OSError m)"
    and "img_info h = Some i" and "get_size i = Inr sz" and "get_block_size i = Inl e"
  shows "fst (get_volume_info ev h) = Inl e"
  using assms by (simp add: get_volume_info_def synthetic_volume_def called_def Let_def)

theorem get_volume_info_raises:
  "Volume_Info ex_env (img_info ex_handler) = Inl (OSError ''Cannot determine partition type'')
   \<and> img_info ex_handler = Some ex_img
   \<and> get_size ex_img = Inr 1048576
   \<and> get_block_size ex_img
       = Inl (AttributeError ''pytsk3.Img_Info object has no attribute get_block_size'')
   \<and> fst (get_volume_info ex_env ex_handler)
       = Inl (AttributeError ''pytsk3.Img_Info object has no attribute get_block_size'')"
proof -
  have a: "Volume_Info ex_env (img_info ex_handler)
             = Inl (OSError ''Cannot determine partition type'')"
    by (simp add: ex_env_def)
  have b: "img_info ex_handler = Some ex_img" by (simp add: ex_handler_def)
  have c: "get_size ex_img = Inr 1048576"
    and d: "get_block_size ex_img
              = Inl (AttributeError ''pytsk3.Img_Info object has no attribute get_block_size'')"
    by (simp_all add: ex_img_def)
  from get_volume_info_raises_in_except [OF a b c d] a b c d show ?thesis by simp
qed

section \<open>Properties of the worker\<close>

subsection \<open>Steps without a stop request\<close>

lemma landing_None:
  "emitted (landing None w) = emitted w"
  "is_running (landing None w) = is_running w"
  by (simp_all add: landing_def)

lemma w_kwargs_landing: "w_kwargs (landing sp w) = w_kwargs w"
  by (simp add: landing_def stop_def emit_def)

lemma emit_step_None:
  "emitted (emit_step None s w) = emitted w @ [s]"
  "is_running (emit_step None s w) = is_running w"
  by (simp_all add: emit_step_def emit_def landing_def)

lemma w_kwargs_emit_step: "w_kwargs (emit_step sp s w) = w_kwargs w"
  by (simp add: emit_step_def emit_def w_kwargs_landing)

subsection \<open>Stopping\<close>

lemma after_stop_snoc:
  "after_stop (xs @ [s]) =
     (if Progress ''Stopping analysis...'' \<in> set xs then after_stop xs @ [s] else [])"
  by (auto simp: after_stop_def dropWhile_append dest: set_dropWhileD)

lemma after_stop_fresh:
  "Progress ''Stopping analysis...'' \<notin> set xs \<Longrightarrow>
   after_stop (xs @ Progress ''Stopping analysis...'' # ys) = ys"
proof -
  assume "Progress ''Stopping analysis...'' \<notin> set xs"
  then have "dropWhile (\<lambda>s. s \<noteq> Progress ''Stopping analysis...'')
               (xs @ Progress ''Stopping analysis...'' # ys)
             = dropWhile (\<lambda>s. s \<noteq> Progress ''Stopping analysis...'')
                 (Progress ''Stopping analysis...'' # ys)"
    by (intro dropWhile_append2) auto
  then show ?thesis by (simp add: after_stop_def)
qed

lemma set_tl_snoc: "x \<in> set (tl (ys @ [m])) \<Longrightarrow> x \<in> set (tl ys) \<or> x = m"
  by (cases ys) auto

lemma in_flight_emit_progress:
  "in_flight w \<Longrightarrow> m \<noteq> ''Stopping analysis...'' \<Longrightarrow> in_flight (emit (Progress m) w)"
  by (auto simp: in_flight_def emit_def after_stop_snoc dest: set_tl_snoc)

lemma in_flight_stop: "in_flight w \<Longrightarrow> in_flight (stop w)"
  by (cases "is_running w")
     (auto simp: in_flight_def stop_def emit_def after_stop_snoc dest: set_tl_snoc)

lemma in_flight_steps: "in_flight (w\<lparr>steps := n\<rparr>) = in_flight w"
  by (simp add: in_flight_def)

lemma in_flight_landing: "in_flight w \<Longrightarrow> in_flight (landing sp w)"
  by (simp add: landing_def in_flight_steps in_flight_stop)

lemma in_flight_emit_step_progress:
  "in_flight w \<Longrightarrow> m \<noteq> ''Stopping analysis...'' \<Longrightarrow> in_flight (emit_step sp (Progress m) w)"
  by (simp add: emit_step_def in_flight_emit_progress in_flight_landing)

text \<open>
  An emit whose flag test has passed: the request may still land before it, and then
  the signal is the one right after the request.
\<close>

lemma in_flight_emit_step_guarded:
  assumes "in_flight w" and "is_running w" and "\<not> is_progress s" and "s \<noteq> Finished"
  shows "in_flight (emit_step sp s w)"
proof (cases "sp = Some (steps w)")
  case True
  from assms(1,2) have "Progress ''Stopping analysis...'' \<notin> set (emitted w)"
    by (simp add: in_flight_def)
  with assms True show ?thesis
    by (simp add: emit_step_def landing_def stop_def emit_def in_flight_def after_stop_fresh)
next
  case False
  with assms show ?thesis
    by (cases s) (auto simp: emit_step_def landing_def emit_def in_flight_def)
qed

lemma in_flight_run_get_volumes:
  "in_flight w \<Longrightarrow> run_get_volumes sp ev h w = (r, hopt, w') \<Longrightarrow> in_flight w'"
  by (auto simp: run_get_volumes_def Let_def in_flight_landing in_flight_emit_step_progress
                 in_flight_emit_step_guarded
           split: prod.splits sum.splits if_splits)

lemma in_flight_run_open_fs:
  "in_flight w \<Longrightarrow> run_open_fs sp ev h w = (r, hopt, w') \<Longrightarrow> in_flight w'"
  by (auto simp: run_open_fs_def Let_def in_flight_landing in_flight_emit_step_progress
                 in_flight_emit_step_guarded
           split: prod.splits sum.splits if_splits)

lemma in_flight_run_list_dir:
  "in_flight w \<Longrightarrow> run_list_dir sp ev h w = (r, hopt, w') \<Longrightarrow> in_flight w'"
  by (auto simp: run_list_dir_def Let_def in_flight_landing in_flight_emit_step_progress
                 in_flight_emit_step_guarded
           split: prod.splits sum.splits if_splits)

lemma in_flight_run_try:
  assumes "in_flight w" and "run_try sp ev w = (r, hopt, w')"
  shows "in_flight w'"
proof -
  let ?w1 = "emit_step sp
               (Progress (''Starting disk task: '' @ str_opt (kw_task (w_kwargs w)) @ ''...'')) w"
  have q: "in_flight ?w1"
    using assms(1) by (simp add: in_flight_emit_step_progress)
  from assms(2) q show ?thesis
    by (auto simp: run_try_def Let_def split: sum.splits if_splits
             dest: in_flight_run_get_volumes in_flight_run_open_fs in_flight_run_list_dir)
qed

lemma in_flight_run_except: "in_flight w \<Longrightarrow> in_flight (run_except sp e w)"
  by (simp add: run_except_def Let_def in_flight_landing in_flight_emit_step_guarded)

lemma in_flight_init: "in_flight (BaseWorker_init kw)"
  by (simp add: in_flight_def BaseWorker_init_def)

text \<open>A worker that is stopped before it starts emits progress messages only.\<close>

lemma silenced_landing: "silenced w \<Longrightarrow> silenced (landing sp w)"
  by (auto simp: silenced_def landing_def stop_def emit_def)

lemma silenced_emit_step: "silenced w \<Longrightarrow> silenced (emit_step sp (Progress m) w)"
  by (auto simp: silenced_def emit_step_def landing_def stop_def emit_def)

lemma silenced_not_running: "silenced w \<Longrightarrow> \<not> is_running (landing sp w)"
  by (auto simp: silenced_def landing_def stop_def emit_def)

lemma silenced_run_get_volumes:
  "silenced w \<Longrightarrow> run_get_volumes sp ev h w = (r, hopt, w') \<Longrightarrow> silenced w'"
  by (auto simp: run_get_volumes_def Let_def silenced_landing silenced_emit_step
                 silenced_not_running
           split: prod.splits sum.splits if_splits)

lemma silenced_run_open_fs:
  "silenced w \<Longrightarrow> run_open_fs sp ev h w = (r, hopt, w') \<Longrightarrow> silenced w'"
  by (auto simp: run_open_fs_def Let_def silenced_landing silenced_emit_step
                 silenced_not_running
           split: prod.splits sum.splits if_splits)

lemma silenced_run_list_dir:
  "silenced w \<Longrightarrow> run_list_dir sp ev h w = (r, hopt, w') \<Longrightarrow> silenced w'"
  by (auto simp: run_list_dir_def Let_def silenced_landing silenced_emit_step
                 silenced_not_running
           split: prod.splits sum.splits if_splits)

lemma silenced_run_try:
  assumes "silenced w" and "run_try sp ev w = (r, hopt, w')"
  shows "silenced w'"
proof -
  let ?w1 = "emit_step sp
               (Progress (''Starting disk task: '' @ str_opt (kw_task (w_kwargs w)) @ ''...'')) w"
  have q: "silenced ?w1"
    using assms(1) by (simp add: silenced_emit_step)
  from assms(2) q show ?thesis
    by (auto simp: run_try_def Let_def split: sum.splits if_splits
             dest: silenced_run_get_volumes silenced_run_open_fs silenced_run_list_dir)
qed

lemma silenced_run:
  assumes "silenced w"
  shows "silenced (snd (run sp ev w))"
proof -
  obtain r hopt w1 where t: "run_try sp ev w = (r, hopt, w1)"
    by (cases "run_try sp ev w")
  from silenced_run_try [OF assms t] have s1: "silenced w1" .
  have s2: "silenced (case r of None \<Rightarrow> w1 | Some e \<Rightarrow> run_except sp e w1)"
    using s1 by (simp add: run_except_def Let_def silenced_landing silenced_not_running
                   split: option.splits)
  from silenced_landing [OF s2] silenced_not_running [OF s2] t show ?thesis
    by (simp add: run_def Let_def)
qed

lemma run_finished_step:
  assumes "in_flight w3" and "is_running w3"
  shows "count_list (emitted (emit_step sp Finished w3)) Finished = 1
       \<and> tl (after_stop (emitted (emit_step sp Finished w3))) = []"
proof -
  from assms have f: "Finished \<notin> set (emitted w3)"
    and m: "Progress ''Stopping analysis...'' \<notin> set (emitted w3)"
    by (simp_all add: in_flight_def)
  show ?thesis
  proof (cases "sp = Some (steps w3)")
    case True
    with f m show ?thesis
      by (simp add: emit_step_def landing_def stop_def emit_def after_stop_fresh
            count_list_0_iff)
  next
    case False
    with f m show ?thesis
      by (simp add: emit_step_def landing_def emit_def after_stop_snoc count_list_0_iff)
  qed
qed

text \<open>
  C1, as the code has it. The stop request may land before any step of the run of a
  fresh worker. \<^verbatim>\<open>finished\<close> is emitted at most once, and exactly once when the flag is
  still set as the run ends. After the request only the signal right after it can be
  anything but a progress message: the payload, the error or \<^verbatim>\<open>finished\<close> whose flag
  test the run had already passed. A worker that is stopped before \<^verbatim>\<open>run\<close> starts emits
  progress messages only.
\<close>

theorem run_after_stop_request:
  "(let w' = snd (run sp ev (BaseWorker_init kw)) in
      count_list (emitted w') Finished \<le> 1
      \<and> (is_running w' \<longrightarrow> count_list (emitted w') Finished = 1)
      \<and> (\<forall>s \<in> set (tl (after_stop (emitted w'))). is_progress s))
   \<and> (\<forall>s \<in> set (emitted (snd (run sp ev (stop (BaseWorker_init kw))))). is_progress s)"
proof
  let ?w0 = "BaseWorker_init kw"
  obtain r hopt w1 where t: "run_try sp ev ?w0 = (r, hopt, w1)"
    by (cases "run_try sp ev ?w0")
  from in_flight_run_try [OF in_flight_init t] have q1: "in_flight w1" .
  define w2 where "w2 = (case r of None \<Rightarrow> w1 | Some e \<Rightarrow> run_except sp e w1)"
  have q2: "in_flight w2"
    using q1 by (simp add: w2_def in_flight_run_except split: option.splits)
  define w3 where "w3 = landing sp w2"
  have q3: "in_flight w3" using q2 by (simp add: w3_def in_flight_landing)
  have res: "snd (run sp ev ?w0) = (if is_running w3 then emit_step sp Finished w3 else w3)"
    using t by (simp add: run_def w2_def w3_def Let_def)
  show "let w' = snd (run sp ev ?w0) in
      count_list (emitted w') Finished \<le> 1
      \<and> (is_running w' \<longrightarrow> count_list (emitted w') Finished = 1)
      \<and> (\<forall>s \<in> set (tl (after_stop (emitted w'))). is_progress s)"
  proof (cases "is_running w3")
    case True
    from run_finished_step [OF q3 True, of sp] True show ?thesis
      unfolding res Let_def by simp
  next
    case False
    with q3 show ?thesis
      unfolding res Let_def by (simp add: in_flight_def count_list_0_iff)
  qed
next
  have "silenced (stop (BaseWorker_init kw))"
    by (simp add: silenced_def stop_def emit_def BaseWorker_init_def)
  from silenced_run [OF this, of sp ev]
  show "\<forall>s \<in> set (emitted (snd (run sp ev (stop (BaseWorker_init kw))))). is_progress s"
    by (simp add: silenced_def)
qed

theorem run_after_stop_request_witness:
  "emitted (snd (run (Some 6) ex_env (ex_worker ''list_dir'')))
     = [Progress ''Starting disk task: list_dir...'',
        Progress ''Opening filesystem to list directory: /...'',
        Progress ''Listing directory: /...'',
        Directory_Listing_Ready (fst (list_directory ex_env ex_handler_open (Some ''/'') None)),
        Progress ''Stopping analysis...'',
        Finished]
   \<and> \<not> is_running (snd (run (Some 6) ex_env (ex_worker ''list_dir'')))
   \<and> count_list (emitted (snd (run (Some 6) ex_env (ex_worker ''list_dir'')))) Finished \<le> 1
   \<and> is_running (snd (run None ex_env (ex_worker ''list_dir'')))
   \<and> count_list (emitted (snd (run None ex_env (ex_worker ''list_dir'')))) Finished = 1
   \<and> emitted (snd (run None ex_env (stop (ex_worker ''list_dir''))))
     = [Progress ''Stopping analysis...'',
        Progress ''Starting disk task: list_dir...'',
        Progress ''Opening filesystem to list directory: /...'',
        Progress ''Listing directory: /...'']"
proof -
  let ?kw = "no_kwargs\<lparr>kw_task := Some ''list_dir'', kw_image_path := Some ''disk.dd'',
                        kw_offset_sectors := Some 0\<rparr>"
  have w: "ex_worker ''list_dir'' = BaseWorker_init ?kw"
    by (simp add: ex_worker_def)
  have a: "emitted (snd (run (Some 6) ex_env (ex_worker ''list_dir'')))
     = [Progress ''Starting disk task: list_dir...'',
        Progress ''Opening filesystem to list directory: /...'',
        Progress ''Listing directory: /...'',
        Directory_Listing_Ready (fst (list_directory ex_env ex_handler_open (Some ''/'') None)),
        Progress ''Stopping analysis...'',
        Finished]"
    by code_simp
  have b: "is_running (snd (run None ex_env (ex_worker ''list_dir'')))"
    by code_simp
  have b': "\<not> is_running (snd (run (Some 6) ex_env (ex_worker ''list_dir'')))"
    by code_simp
  have c: "emitted (snd (run None ex_env (stop (ex_worker ''list_dir''))))
     = [Progress ''Stopping analysis...'',
        Progress ''Starting disk task: list_dir...'',
        Progress ''Opening filesystem to list directory: /...'',
        Progress ''Listing directory: /...'']"
    by code_simp
  from run_after_stop_request [of "Some 6" ex_env ?kw]
  have d: "count_list (emitted (snd (run (Some 6) ex_env (ex_worker ''list_dir'')))) Finished \<le> 1"
    by (simp add: Let_def w)
  from run_after_stop_request [of None ex_env ?kw] b
  have e: "count_list (emitted (snd (run None ex_env (ex_worker ''list_dir'')))) Finished = 1"
    by (simp add: Let_def w)
  from a b b' c d e show ?thesis by simp
qed

text \<open>
  The claim as stated fails both ways. A request that lands while the directory is
  being read (before step 3, the flag test after \<^verbatim>\<open>list_directory\<close>) is followed by
  neither the listing nor \<^verbatim>\<open>finished\<close>. A request that lands between that test and its
  emit (before step 4) is followed by the listing, a success payload, and again by no
  \<^verbatim>\<open>finished\<close>.
\<close>

theorem stop_in_flight_trace:
  "emitted (snd (run (Some 3) ex_env (ex_worker ''list_dir'')))
     = [Progress ''Starting disk task: list_dir...'',
        Progress ''Opening filesystem to list directory: /...'',
        Progress ''Listing directory: /...'',
        Progress ''Stopping analysis...'']
   \<and> count_list (emitted (snd (run (Some 3) ex_env (ex_worker ''list_dir'')))) Finished \<noteq> 1
   \<and> emitted (snd (run (Some 4) ex_env (ex_worker ''list_dir'')))
     = [Progress ''Starting disk task: list_dir...'',
        Progress ''Opening filesystem to list directory: /...'',
        Progress ''Listing directory: /...'',
        Progress ''Stopping analysis...'',
        Directory_Listing_Ready (fst (list_directory ex_env ex_handler_open (Some ''/'') None))]
   \<and> count_list (emitted (snd (run (Some 4) ex_env (ex_worker ''list_dir'')))) Finished \<noteq> 1"
  by code_simp

subsection \<open>A listing task whose open step fails\<close>

text \<open>
  C6, what the code does. A listing task that is not stopped and whose
  \<^verbatim>\<open>open_filesystem\<close> returns \<^verbatim>\<open>False\<close> emits two progress messages, the \<^verbatim>\<open>error\<close>
  signal with a fixed message, and \<^verbatim>\<open>finished\<close>: no directory listing, and no
  \<^verbatim>\<open>filesystem_opened\<close> signal either.
\<close>

theorem list_dir_open_failure:
  assumes "is_running w"
    and "kw_task (w_kwargs w) = Some ''list_dir''"
    and "DiskImageHandler_init ev (kw_image_path (w_kwargs w)) = Inr h"
    and "\<not> fst (open_filesystem ev h (kw_partition_index (w_kwargs w))
                   (kw_offset_sectors (w_kwargs w)))"
  shows "emitted (snd (run None ev w)) =
           emitted w @
           [Progress (''Starting disk task: list_dir...''),
            Progress (''Opening filesystem to list directory: ''
               @ str_opt (case kw_list_path (w_kwargs w) of None \<Rightarrow> Some ''/'' | Some p \<Rightarrow> p)
               @ ''...''),
            Error ''Failed to open filesystem before listing directory.'',
            Finished]"
proof -
  let ?m1 = "''Starting disk task: list_dir...''"
  let ?m2 = "''Opening filesystem to list directory: ''
               @ str_opt (case kw_list_path (w_kwargs w) of None \<Rightarrow> Some ''/'' | Some p \<Rightarrow> p)
               @ ''...''"
  let ?w1 = "emit_step None (Progress ?m1) w"
  let ?w2 = "emit_step None (Error ''Failed to open filesystem before listing directory.'')
               (landing None (emit_step None (Progress ?m2) ?w1))"
  obtain h1 where o: "open_filesystem ev h (kw_partition_index (w_kwargs w))
                        (kw_offset_sectors (w_kwargs w)) = (False, h1)"
    using assms(4)
    by (cases "open_filesystem ev h (kw_partition_index (w_kwargs w))
                 (kw_offset_sectors (w_kwargs w))")
       simp
  have l: "run_list_dir None ev h ?w1 = (None, Some h1, ?w2)"
    using o assms(1)
    by (simp add: run_list_dir_def Let_def landing_None emit_step_None w_kwargs_emit_step)
  have t: "run_try None ev w = (None, Some h1, ?w2)"
    using l assms(2,3) by (simp add: run_try_def Let_def)
  show ?thesis
    using assms(1)
    by (simp add: run_def t Let_def landing_None emit_step_None)
qed

theorem list_dir_open_failure_trace:
  "is_running ex_worker_open_fails
   \<and> kw_task (w_kwargs ex_worker_open_fails) = Some ''list_dir''
   \<and> DiskImageHandler_init ex_env (kw_image_path (w_kwargs ex_worker_open_fails)) = Inr ex_handler
   \<and> \<not> fst (open_filesystem ex_env ex_handler (kw_partition_index (w_kwargs ex_worker_open_fails))
                   (kw_offset_sectors (w_kwargs ex_worker_open_fails)))
   \<and> emitted (snd (run None ex_env ex_worker_open_fails)) =
        [Progress ''Starting disk task: list_dir...'',
         Progress ''Opening filesystem to list directory: /...'',
         Error ''Failed to open filesystem before listing directory.'',
         Finished]"
proof -
  have a: "is_running ex_worker_open_fails"
    and b: "kw_task (w_kwargs ex_worker_open_fails) = Some ''list_dir''"
    by (simp_all add: ex_worker_open_fails_def BaseWorker_init_def no_kwargs_def)
  have c: "DiskImageHandler_init ex_env (kw_image_path (w_kwargs ex_worker_open_fails))
             = Inr ex_handler"
    by (simp add: ex_worker_open_fails_def BaseWorker_init_def no_kwargs_def
          DiskImageHandler_init_def ex_env_def ex_handler_def)
  have d: "\<not> fst (open_filesystem ex_env ex_handler
                     (kw_partition_index (w_kwargs ex_worker_open_fails))
                     (kw_offset_sectors (w_kwargs ex_worker_open_fails)))"
    by (simp add: ex_worker_open_fails_def BaseWorker_init_def no_kwargs_def
          open_filesystem_def open_filesystem_try_def locate_partition_def ex_env_def
          ex_handler_def called_def Let_def)
  from list_dir_open_failure [OF a b c d] a b c d show ?thesis
    by (simp add: ex_worker_open_fails_def BaseWorker_init_def no_kwargs_def)
qed

subsection \<open>Exceptions of the library\<close>







section \<open>Properties of the tab\<close>

lemma reachable_foldl: "reachable t \<Longrightarrow> reachable (foldl step t evs)"
  by (induction evs arbitrary: t) (auto intro: reachable_step)

lemma reachable_ex_tab_busy: "reachable ex_tab_busy"
  unfolding ex_tab_busy_def by (intro reachable_step reachable_init)

lemma reachable_ex_tab_volumes_listed: "reachable ex_tab_volumes_listed"
  unfolding ex_tab_volumes_listed_def by (intro reachable_foldl reachable_ex_tab_busy)

subsection \<open>One task at a time\<close>

lemma run_inv_message_box: "run_inv t \<Longrightarrow> run_inv (message_box d t)"
  by (simp add: run_inv_def thread_is_running_def has_image_def message_box_def)

lemma run_inv_start: "run_inv t \<Longrightarrow> run_inv (start_disk_analysis task kw t)"
  by (simp add: start_disk_analysis_def run_inv_message_box)
     (simp add: run_inv_def thread_is_running_def has_image_def)

lemma run_inv_show_error: "run_inv t \<Longrightarrow> run_inv (show_error m t)"
  by (simp add: show_error_def run_inv_message_box)

lemma run_inv_not_running: "\<not> thread_is_running t \<Longrightarrow> run_inv t"
  by (simp add: run_inv_def)

lemma not_running_stop_analysis: "\<not> thread_is_running (stop_analysis t)"
  by (simp add: stop_analysis_def thread_is_running_def on_disk_analysis_finished_def)

lemma run_inv_browse_image: "run_inv (browse_image p t)"
proof (cases "p = []")
  case True
  have "\<not> thread_is_running (stop_analysis t\<lparr>tab_image_path := None\<rparr>)"
    using not_running_stop_analysis [of t] by (simp add: thread_is_running_def)
  with True show ?thesis
    by (simp add: browse_image_def Let_def run_inv_not_running)
next
  case False
  let ?t = "stop_analysis t\<lparr>tab_image_path := Some p, volume_table := [],
              file_listing_table := [], selected_partition_index := None,
              selected_offset := None, current_fs_open := False\<rparr>"
  have "\<not> thread_is_running ?t"
    using not_running_stop_analysis [of t] by (simp add: thread_is_running_def)
  then have "run_inv (start_disk_analysis ''get_volumes'' no_kwargs ?t)"
    by (intro run_inv_start run_inv_not_running)
  with False show ?thesis
    by (simp add: browse_image_def Let_def)
qed

lemma run_inv_cong:
  "disk_thread t' = disk_thread t \<Longrightarrow> tab_image_path t' = tab_image_path t \<Longrightarrow>
   run_inv t' = run_inv t"
  by (simp add: run_inv_def thread_is_running_def has_image_def)

lemma run_inv_volume_selected:
  assumes "run_inv t"
  shows "run_inv (volume_selected row t)"
proof (cases "row < length (volume_table t)")
  case False
  with assms show ?thesis by (simp add: volume_selected_def)
next
  case True
  let ?v = "volume_table t ! row"
  let ?t1 = "t\<lparr>file_listing_table := [], selected_partition_index := Some (v_slot ?v),
                selected_offset := Some (v_start_sector ?v), current_fs_open := False\<rparr>"
  let ?t2 = "?t1\<lparr>selected_partition_index := None, selected_offset := Some 0\<rparr>"
  have 1: "run_inv ?t1" using assms run_inv_cong [of ?t1 t] by simp
  have 2: "run_inv ?t2" using assms run_inv_cong [of ?t2 t] by simp
  show ?thesis
  proof (cases "str_contains (v_desc ?v) (ascii ''Potential Filesystem'')")
    case True
    have "volume_selected row t = start_disk_analysis ''list_dir''
            (no_kwargs\<lparr>kw_offset_sectors := selected_offset ?t2,
                        kw_list_path := Some (Some ''/'')\<rparr>) ?t2"
      using True \<open>row < length (volume_table t)\<close>
      by (simp only: volume_selected_def Let_def if_True if_False simp_thms)
    with 2 show ?thesis by (simp only: run_inv_start)
  next
    case False
    have "volume_selected row t = start_disk_analysis ''list_dir''
            (no_kwargs\<lparr>kw_partition_index := selected_partition_index ?t1,
                        kw_list_path := Some (Some ''/'')\<rparr>) ?t1"
      using False \<open>row < length (volume_table t)\<close>
      by (simp only: volume_selected_def Let_def if_True if_False simp_thms)
    with 1 show ?thesis by (simp only: run_inv_start)
  qed
qed

lemma run_inv_file_double_clicked: "run_inv t \<Longrightarrow> run_inv (file_double_clicked row t)"
  unfolding file_double_clicked_def Let_def
  by (auto intro!: run_inv_start run_inv_show_error run_inv_message_box split: option.splits)

lemma run_inv_step: "run_inv t \<Longrightarrow> run_inv (step t ev)"
proof (cases ev)
  case (Browse p)
  assume "run_inv t"
  with Browse show ?thesis by (simp add: run_inv_browse_image)
next
  case (Volume_Double_Clicked row)
  assume "run_inv t"
  with Volume_Double_Clicked show ?thesis by (simp add: run_inv_volume_selected)
next
  case (File_Double_Clicked row)
  assume "run_inv t"
  with File_Double_Clicked show ?thesis by (simp add: run_inv_file_double_clicked)
next
  case (Slot_Volume_Info_Ready vs)
  assume "run_inv t"
  with Slot_Volume_Info_Ready show ?thesis
    by (simp add: display_volumes_def Let_def run_inv_def thread_is_running_def has_image_def)
next
  case (Slot_Directory_Listing_Ready es)
  assume "run_inv t"
  with Slot_Directory_Listing_Ready show ?thesis
    by (simp add: display_directory_listing_def Let_def run_inv_def thread_is_running_def
          has_image_def)
next
  case (Slot_Filesystem_Opened b m)
  assume "run_inv t"
  then have "run_inv (t\<lparr>current_fs_open := b\<rparr>)"
    by (simp add: run_inv_def thread_is_running_def has_image_def)
  then have "run_inv (on_filesystem_opened b m t)"
    unfolding on_filesystem_opened_def Let_def
    by (cases b) (simp_all only: if_True if_False run_inv_show_error)
  with Slot_Filesystem_Opened show ?thesis by simp
next
  case (Slot_Error m)
  assume "run_inv t"
  with Slot_Error show ?thesis by (simp add: run_inv_show_error)
next
  case Thread_Exits
  then show ?thesis by (simp add: run_inv_def thread_is_running_def)
next
  case Thread_Finished
  then show ?thesis
    by (simp add: on_disk_analysis_finished_def run_inv_def thread_is_running_def)
next
  case Close_Event
  then show ?thesis by (simp add: not_running_stop_analysis run_inv_not_running)
qed

lemma reachable_run_inv: "reachable t \<Longrightarrow> run_inv t"
proof (induction rule: reachable.induct)
  case reachable_init
  show ?case by (simp add: DiskTab_init_def run_inv_def thread_is_running_def)
next
  case (reachable_step t ev)
  then show ?case by (simp add: run_inv_step)
qed

text \<open>
  C5. In every reachable state of the tab in which the thread of a previous task is
  still running, \<^verbatim>\<open>_start_disk_analysis\<close> only shows the \<^verbatim>\<open>Busy\<close> warning: the state is
  otherwise unchanged, so no thread or worker is created and the thread and worker of
  the task in flight are the ones that were there.
\<close>

theorem busy_request_rejected:
  assumes "reachable t" and "thread_is_running t"
  shows "start_disk_analysis task kw t
           = message_box (Warning ''Busy'' (ascii ''Disk analysis is already in progress.'')) t
         \<and> disk_thread (start_disk_analysis task kw t) = disk_thread t
         \<and> disk_worker (start_disk_analysis task kw t) = disk_worker t"
  using assms reachable_run_inv [of t]
  by (simp add: start_disk_analysis_def message_box_def run_inv_def)

theorem busy_request_rejected_witness:
  "reachable ex_tab_busy
   \<and> thread_is_running ex_tab_busy
   \<and> dialogs (start_disk_analysis ''list_dir'' no_kwargs ex_tab_busy)
       = [Warning ''Busy'' (ascii ''Disk analysis is already in progress.'')]
   \<and> disk_worker (start_disk_analysis ''list_dir'' no_kwargs ex_tab_busy)
       = disk_worker ex_tab_busy
   \<and> map_option (\<lambda>w. kw_task (w_kwargs w)) (disk_worker ex_tab_busy)
       = Some (Some ''get_volumes'')"
proof -
  have r: "thread_is_running ex_tab_busy"
    and d: "dialogs ex_tab_busy = []"
    and k: "map_option (\<lambda>w. kw_task (w_kwargs w)) (disk_worker ex_tab_busy)
             = Some (Some ''get_volumes'')"
    by (simp_all add: ex_tab_busy_def DiskTab_init_def browse_image_def stop_analysis_def
          start_disk_analysis_def thread_is_running_def has_image_def Let_def
          BaseWorker_init_def no_kwargs_def)
  from busy_request_rejected [OF reachable_ex_tab_busy r, of "''list_dir''" no_kwargs]
       reachable_ex_tab_busy r d k
  show ?thesis by (simp add: message_box_def)
qed

subsection \<open>The navigation context\<close>

lemma nav_inv_cong:
  "selected_offset t' = selected_offset t \<Longrightarrow>
   selected_partition_index t' = selected_partition_index t \<Longrightarrow>
   disk_worker t' = disk_worker t \<Longrightarrow> nav_inv t' = nav_inv t"
  by (simp add: nav_inv_def)

lemma nav_inv_message_box: "nav_inv (message_box d t) = nav_inv t"
  by (simp add: nav_inv_def message_box_def)

lemma nav_inv_show_error: "nav_inv (show_error m t) = nav_inv t"
  by (simp add: show_error_def nav_inv_message_box)

lemma nav_inv_start:
  assumes "nav_inv t"
    and "task = ''list_dir'' \<Longrightarrow> exactly_one (kw_partition_index kw) (kw_offset_sectors kw)"
  shows "nav_inv (start_disk_analysis task kw t)"
  using assms
  by (auto simp: start_disk_analysis_def nav_inv_message_box)
     (auto simp: nav_inv_def BaseWorker_init_def)

lemma nav_inv_finished: "nav_inv t \<Longrightarrow> nav_inv (on_disk_analysis_finished t)"
  by (simp add: nav_inv_def on_disk_analysis_finished_def)

lemma nav_inv_stop_analysis: "nav_inv t \<Longrightarrow> nav_inv (stop_analysis t)"
  by (simp add: nav_inv_def stop_analysis_def on_disk_analysis_finished_def)

lemma selected_start [simp]:
  "selected_offset (start_disk_analysis task kw t) = selected_offset t"
  "selected_partition_index (start_disk_analysis task kw t) = selected_partition_index t"
  by (simp_all add: start_disk_analysis_def message_box_def)

lemma selected_show_error [simp]:
  "selected_offset (show_error m t) = selected_offset t"
  "selected_partition_index (show_error m t) = selected_partition_index t"
  by (simp_all add: show_error_def message_box_def)

lemma nav_inv_browse_image: "nav_inv t \<Longrightarrow> nav_inv (browse_image p t)"
proof (cases "p = []")
  case True
  assume "nav_inv t"
  then have "nav_inv (stop_analysis t)" by (rule nav_inv_stop_analysis)
  then have "nav_inv (stop_analysis t\<lparr>tab_image_path := None\<rparr>)"
    by (simp add: nav_inv_def)
  with True show ?thesis by (simp add: browse_image_def Let_def)
next
  case False
  assume "nav_inv t"
  let ?t = "stop_analysis t\<lparr>tab_image_path := Some p, volume_table := [],
              file_listing_table := [], selected_partition_index := None,
              selected_offset := None, current_fs_open := False\<rparr>"
  have "disk_worker (stop_analysis t) = None \<or> disk_worker (stop_analysis t) = disk_worker t"
    by (simp add: stop_analysis_def on_disk_analysis_finished_def)
  with \<open>nav_inv t\<close> have "nav_inv ?t" by (auto simp: nav_inv_def)
  then have "nav_inv (start_disk_analysis ''get_volumes'' no_kwargs ?t)"
    by (rule nav_inv_start) simp
  with False show ?thesis by (simp add: browse_image_def Let_def)
qed

lemma volume_selected_unfold:
  assumes "row < length (volume_table t)"
  shows "volume_selected row t =
     (let v = volume_table t ! row;
          t1 = t\<lparr>file_listing_table := [], selected_partition_index := Some (v_slot v),
                  selected_offset := Some (v_start_sector v), current_fs_open := False\<rparr>
      in if str_contains (v_desc v) (ascii ''Potential Filesystem'')
         then start_disk_analysis ''list_dir''
                (no_kwargs\<lparr>kw_offset_sectors := Some 0, kw_list_path := Some (Some ''/'')\<rparr>)
                (t1\<lparr>selected_partition_index := None, selected_offset := Some 0\<rparr>)
         else start_disk_analysis ''list_dir''
                (no_kwargs\<lparr>kw_partition_index := Some (v_slot v),
                           kw_list_path := Some (Some ''/'')\<rparr>) t1)"
  using assms by (simp add: volume_selected_def Let_def)

lemma nav_inv_volume_selected:
  assumes "nav_inv t"
  shows "nav_inv (volume_selected row t)"
proof (cases "row < length (volume_table t)")
  case False
  with assms show ?thesis by (simp add: volume_selected_def)
next
  case True
  have w: "\<And>t'. disk_worker t' = disk_worker t \<Longrightarrow> selected_offset t' \<noteq> None \<Longrightarrow> nav_inv t'"
    using assms by (auto simp: nav_inv_def)
  show ?thesis
    unfolding volume_selected_unfold [OF True] Let_def
  proof (split if_split, intro conjI impI)
    show "nav_inv (start_disk_analysis ''list_dir''
            (no_kwargs\<lparr>kw_offset_sectors := Some 0, kw_list_path := Some (Some ''/'')\<rparr>)
            (t\<lparr>file_listing_table := [],
                selected_partition_index := Some (v_slot (volume_table t ! row)),
                selected_offset := Some (v_start_sector (volume_table t ! row)),
                current_fs_open := False,
                selected_partition_index := None, selected_offset := Some 0\<rparr>))"
      by (rule nav_inv_start, rule w) (simp_all add: exactly_one_def no_kwargs_def)
    show "nav_inv (start_disk_analysis ''list_dir''
            (no_kwargs\<lparr>kw_partition_index := Some (v_slot (volume_table t ! row)),
                       kw_list_path := Some (Some ''/'')\<rparr>)
            (t\<lparr>file_listing_table := [],
                selected_partition_index := Some (v_slot (volume_table t ! row)),
                selected_offset := Some (v_start_sector (volume_table t ! row)),
                current_fs_open := False\<rparr>))"
      by (rule nav_inv_start, rule w) (simp_all add: exactly_one_def no_kwargs_def)
  qed
qed

lemma nav_inv_file_double_clicked:
  assumes "nav_inv t"
  shows "nav_inv (file_double_clicked row t)"
  using assms unfolding file_double_clicked_def Let_def
  by (auto simp: nav_inv_message_box nav_inv_show_error exactly_one_def no_kwargs_def
           intro!: nav_inv_start split: option.splits)

lemma nav_inv_step: "nav_inv t \<Longrightarrow> nav_inv (step t ev)"
proof (cases ev)
  case (Browse p)
  assume "nav_inv t"
  with Browse show ?thesis by (simp add: nav_inv_browse_image)
next
  case (Volume_Double_Clicked row)
  assume "nav_inv t"
  with Volume_Double_Clicked show ?thesis by (simp add: nav_inv_volume_selected)
next
  case (File_Double_Clicked row)
  assume "nav_inv t"
  with File_Double_Clicked show ?thesis by (simp add: nav_inv_file_double_clicked)
next
  case (Slot_Volume_Info_Ready vs)
  assume "nav_inv t"
  with Slot_Volume_Info_Ready show ?thesis
    by (simp add: display_volumes_def Let_def nav_inv_def)
next
  case (Slot_Directory_Listing_Ready es)
  assume "nav_inv t"
  with Slot_Directory_Listing_Ready show ?thesis
    by (simp add: display_directory_listing_def Let_def nav_inv_def)
next
  case (Slot_Filesystem_Opened b m)
  assume "nav_inv t"
  then have "nav_inv (t\<lparr>current_fs_open := b\<rparr>)" by (simp add: nav_inv_def)
  then have "nav_inv (on_filesystem_opened b m t)"
    unfolding on_filesystem_opened_def Let_def
    by (cases b) (simp_all only: if_True if_False nav_inv_show_error)
  with Slot_Filesystem_Opened show ?thesis by simp
next
  case (Slot_Error m)
  assume "nav_inv t"
  with Slot_Error show ?thesis by (simp add: nav_inv_show_error)
next
  case Thread_Exits
  assume "nav_inv t"
  with Thread_Exits show ?thesis by (simp add: nav_inv_def)
next
  case Thread_Finished
  assume "nav_inv t"
  with Thread_Finished show ?thesis by (simp add: nav_inv_finished)
next
  case Close_Event
  assume "nav_inv t"
  with Close_Event show ?thesis by (simp add: nav_inv_stop_analysis)
qed

lemma reachable_nav_inv: "reachable t \<Longrightarrow> nav_inv t"
proof (induction rule: reachable.induct)
  case reachable_init
  show ?case by (simp add: DiskTab_init_def nav_inv_def)
next
  case (reachable_step t ev)
  then show ?case by (simp add: nav_inv_step)
qed

lemma file_double_clicked_selected:
  "selected_offset (file_double_clicked row t) = selected_offset t \<and>
   selected_partition_index (file_double_clicked row t) = selected_partition_index t"
  unfolding file_double_clicked_def Let_def
  by (auto simp: message_box_def split: option.splits)

text \<open>
  C7, as the code has it. In every reachable state of the tab the stored offset is set
  whenever the stored partition index is, and a listing task the tab holds was given
  exactly one of \<^verbatim>\<open>partition_index\<close> and \<^verbatim>\<open>offset_sectors\<close>. Selecting a volume stores
  the offset, and stores the partition index too unless the description of the volume
  contains \<^verbatim>\<open>Potential Filesystem\<close>. A double click in the file table changes neither.
\<close>

theorem navigation_context_invariant:
  assumes "reachable t"
  shows "(selected_offset t = None \<longrightarrow> selected_partition_index t = None)
       \<and> (\<forall>w. disk_worker t = Some w \<and> kw_task (w_kwargs w) = Some ''list_dir'' \<longrightarrow>
             exactly_one (kw_partition_index (w_kwargs w)) (kw_offset_sectors (w_kwargs w)))
       \<and> (\<forall>row. row < length (volume_table t) \<longrightarrow>
             selected_offset (volume_selected row t) \<noteq> None
           \<and> (selected_partition_index (volume_selected row t) = None
                \<longleftrightarrow> str_contains (v_desc (volume_table t ! row)) (ascii ''Potential Filesystem'')))
       \<and> (\<forall>row. selected_offset (file_double_clicked row t) = selected_offset t
               \<and> selected_partition_index (file_double_clicked row t) = selected_partition_index t)"
proof -
  from reachable_nav_inv [OF assms] have
    "(selected_offset t = None \<longrightarrow> selected_partition_index t = None)
       \<and> (\<forall>w. disk_worker t = Some w \<and> kw_task (w_kwargs w) = Some ''list_dir'' \<longrightarrow>
             exactly_one (kw_partition_index (w_kwargs w)) (kw_offset_sectors (w_kwargs w)))"
    by (simp add: nav_inv_def)
  moreover have "\<forall>row. row < length (volume_table t) \<longrightarrow>
             selected_offset (volume_selected row t) \<noteq> None
           \<and> (selected_partition_index (volume_selected row t) = None
                \<longleftrightarrow> str_contains (v_desc (volume_table t ! row)) (ascii ''Potential Filesystem''))"
    by (simp add: volume_selected_unfold Let_def)
  moreover note file_double_clicked_selected
  ultimately show ?thesis by blast
qed

theorem navigation_context_invariant_witness:
  "reachable ex_tab_volumes_listed
   \<and> (0::nat) < length (volume_table ex_tab_volumes_listed)
   \<and> \<not> str_contains (v_desc (volume_table ex_tab_volumes_listed ! 0))
                       (ascii ''Potential Filesystem'')
   \<and> selected_offset (volume_selected 0 ex_tab_volumes_listed) \<noteq> None
   \<and> selected_partition_index (volume_selected 0 ex_tab_volumes_listed) \<noteq> None
   \<and> map_option (\<lambda>w. (kw_partition_index (w_kwargs w), kw_offset_sectors (w_kwargs w)))
        (disk_worker (volume_selected 0 ex_tab_volumes_listed)) = Some (Some 1, None)"
proof -
  have a: "(0::nat) < length (volume_table ex_tab_volumes_listed)"
    and b: "\<not> str_contains (v_desc (volume_table ex_tab_volumes_listed ! 0))
                       (ascii ''Potential Filesystem'')"
    and c: "map_option (\<lambda>w. (kw_partition_index (w_kwargs w), kw_offset_sectors (w_kwargs w)))
        (disk_worker (volume_selected 0 ex_tab_volumes_listed)) = Some (Some 1, None)"
    by code_simp+
  from navigation_context_invariant [OF reachable_ex_tab_volumes_listed] a b
  have "selected_offset (volume_selected 0 ex_tab_volumes_listed) \<noteq> None
      \<and> selected_partition_index (volume_selected 0 ex_tab_volumes_listed) \<noteq> None"
    by blast
  with reachable_ex_tab_volumes_listed a b c show ?thesis by simp
qed

text \<open>
  The claim as stated fails for a regular partition: after the image is chosen, its
  volume list has arrived and the partition in slot 1 is double-clicked, the tab stores
  both the slot and the start sector.
\<close>

theorem volume_selection_sets_both:
  "reachable ex_tab_volume_selected
   \<and> selected_partition_index ex_tab_volume_selected = Some 1
   \<and> selected_offset ex_tab_volume_selected = Some 2048
   \<and> \<not> exactly_one (selected_partition_index ex_tab_volume_selected)
                      (selected_offset ex_tab_volume_selected)"
proof -
  have r: "reachable ex_tab_volume_selected"
    unfolding ex_tab_volume_selected_def
    by (intro reachable_step reachable_ex_tab_volumes_listed)
  have "selected_partition_index ex_tab_volume_selected = Some 1
      \<and> selected_offset ex_tab_volume_selected = Some 2048"
    by code_simp
  with r show ?thesis by (simp add: exactly_one_def)
qed

subsection \<open>Navigating into a directory\<close>




end
